theory Spec2Isabelle
  imports Main "HOL-Library.Word"
begin

section \<open>The AgriSupplyChain contract: data model\<close>

text \<open>
  The ledger engine is the Solidity contract \<^verbatim>\<open>AgriSupplyChain\<close>. Its storage is a
  record of total maps (a Solidity mapping answers every key, with the zero value where
  nothing was stored), its unsigned integers are 256-bit words, addresses are 160-bit
  words and strings are byte lists. Struct fields keep their source names; a field name
  that several structs share carries a suffix naming its struct (\<open>_P\<close> product,
  \<open>_B\<close> batch, \<open>_E\<close> environment record, \<open>_T\<close> transaction), and the fields
  \<^verbatim>\<open>from\<close> and \<^verbatim>\<open>to\<close> of a transaction are \<open>from_T\<close> and \<open>to_T\<close>.
  Events are not storage and are left out.
\<close>

type_synonym address = "160 word"
type_synonym uint256 = "256 word"
type_synonym int256 = "256 word"

datatype Role = Farmer | Supplier | Distributor | Retailer
datatype Stage = Harvested | Processed | InTransit | Delivered | Sold
datatype Quality = Excellent | Good | Fair | Poor

text \<open>The conversion \<^verbatim>\<open>uint8(stage)\<close>: the position of the member in the enum.\<close>

fun uint8_of_Stage :: "Stage \<Rightarrow> nat" where
  "uint8_of_Stage Harvested = 0"
| "uint8_of_Stage Processed = 1"
| "uint8_of_Stage InTransit = 2"
| "uint8_of_Stage Delivered = 3"
| "uint8_of_Stage Sold = 4"

record Participant =
  name :: string
  location_P :: string
  role :: Role
  isActive :: bool
  reputation :: uint256

record Product =
  productId_P :: uint256
  productName :: string
  variety :: string
  quantity :: uint256
  harvestDate :: string
  farmer :: address
  currentQuality :: Quality
  isOrganic :: bool
  certifications :: "string list"

record BatchTracking =
  batchId_B :: uint256
  productId_B :: uint256
  currentStage :: Stage
  currentOwner :: address
  timestamp_B :: uint256
  location_B :: string
  ownershipHistory :: "address list"
  locationHistory :: "string list"
  stageTimestamps :: "uint256 list"
  notes_B :: string

record EnvironmentRecord =
  timestamp_E :: uint256
  temperature :: int256
  humidity :: uint256
  location_E :: string
  recorder :: address
  notes_E :: string

record Transaction =
  transactionId :: uint256
  batchId_T :: uint256
  from_T :: address
  to_T :: address
  timestamp_T :: uint256
  price :: uint256
  transactionType :: string
  completed :: bool

text \<open>
  The contract storage. Besides the declared state variables it holds the owner of
  \<^verbatim>\<open>Ownable\<close>, the flag of \<^verbatim>\<open>ReentrancyGuard\<close> (\<open>entered\<close> is
  \<^verbatim>\<open>_status == _ENTERED\<close>), the ether held by the contract and the ether the
  contract has paid out to each address.
\<close>

record state =
  participants :: "address \<Rightarrow> Participant"
  products :: "uint256 \<Rightarrow> Product"
  batches :: "uint256 \<Rightarrow> BatchTracking"
  transactions :: "uint256 \<Rightarrow> Transaction"
  qrCodeToBatch :: "string \<Rightarrow> uint256"
  batchEnvironmentData :: "uint256 \<Rightarrow> EnvironmentRecord list"
  nextProductId :: uint256
  nextBatchId :: uint256
  nextTransactionId :: uint256
  owner :: address
  entered :: bool
  contractBalance :: nat
  paidOut :: "address \<Rightarrow> nat"

text \<open>The zero values of the structs: what a mapping answers for a key never written.\<close>

definition zero_Participant :: Participant where
  "zero_Participant =
     \<lparr>name = [], location_P = [], role = Farmer, isActive = False, reputation = 0\<rparr>"

definition zero_Product :: Product where
  "zero_Product =
     \<lparr>productId_P = 0, productName = [], variety = [], quantity = 0, harvestDate = [],
      farmer = 0, currentQuality = Excellent, isOrganic = False, certifications = []\<rparr>"

definition zero_BatchTracking :: BatchTracking where
  "zero_BatchTracking =
     \<lparr>batchId_B = 0, productId_B = 0, currentStage = Harvested, currentOwner = 0,
      timestamp_B = 0, location_B = [], ownershipHistory = [], locationHistory = [],
      stageTimestamps = [], notes_B = []\<rparr>"

definition zero_Transaction :: Transaction where
  "zero_Transaction =
     \<lparr>transactionId = 0, batchId_T = 0, from_T = 0, to_T = 0, timestamp_T = 0, price = 0,
      transactionType = [], completed = False\<rparr>"

text \<open>
  Deployment: the three counters start at 1, every mapping is empty, and the constructor
  of \<^verbatim>\<open>Ownable\<close> makes the deployer the owner.
\<close>

definition constructor :: "address \<Rightarrow> state" where
  "constructor deployer =
     \<lparr>participants = (\<lambda>_. zero_Participant),
      products = (\<lambda>_. zero_Product),
      batches = (\<lambda>_. zero_BatchTracking),
      transactions = (\<lambda>_. zero_Transaction),
      qrCodeToBatch = (\<lambda>_. 0),
      batchEnvironmentData = (\<lambda>_. []),
      nextProductId = 1,
      nextBatchId = 1,
      nextTransactionId = 1,
      owner = deployer,
      entered = False,
      contractBalance = 0,
      paidOut = (\<lambda>_. 0)\<rparr>"

section \<open>Calls, reverts and modifiers\<close>

text \<open>
  Every \<^verbatim>\<open>require\<close> message of the contract (and of the two library contracts it
  inherits) is one error; \<open>ArithmeticPanic\<close> is the overflow check of a counter
  increment and \<open>TransferFailed\<close> a failed \<^verbatim>\<open>address.transfer\<close>.
\<close>

datatype error =
    NotRegistered
  | UnauthorizedRole
  | InvalidBatchID
  | NotCurrentOwner
  | AlreadyRegistered
  | NameEmpty
  | LocationEmpty
  | ProductNameEmpty
  | QuantityZero
  | NotProductOwner
  | QRCodeExists
  | QRCodeEmpty
  | NewOwnerNotRegistered
  | StageMustChange
  | StageMustProgressForward
  | NotAuthorizedQuality
  | NoteEmpty
  | BuyerNotRegistered
  | PriceZero
  | TransactionTypeEmpty
  | NotTheBuyer
  | AlreadyCompleted
  | InsufficientPayment
  | InvalidIndex
  | ParticipantNotActive
  | CallerNotOwner
  | NewOwnerZero
  | ReentrantCall
  | ArithmeticPanic
  | TransferFailed

text \<open>
  A call either returns a value together with the storage it leaves, or reverts with an
  error; a revert also carries the storage as it stood at the failing statement, so
  that a write made before the failure is visible in the model. What the platform does
  with that storage is \<open>transact\<close> below.
\<close>

datatype 'a outcome = Returned 'a state | Reverted error state

record env =
  msg_sender :: address
  block_timestamp :: uint256

definition onlyRegistered :: "env \<Rightarrow> state \<Rightarrow> 'a outcome \<Rightarrow> 'a outcome" where
  "onlyRegistered e st body =
     (if isActive (participants st (msg_sender e)) then body else Reverted NotRegistered st)"

definition onlyRole :: "env \<Rightarrow> state \<Rightarrow> Role \<Rightarrow> 'a outcome \<Rightarrow> 'a outcome" where
  "onlyRole e st r body =
     (if role (participants st (msg_sender e)) = r then body else Reverted UnauthorizedRole st)"

definition validBatch :: "state \<Rightarrow> uint256 \<Rightarrow> 'a outcome \<Rightarrow> 'a outcome" where
  "validBatch st b body =
     (if 0 < b \<and> b < nextBatchId st then body else Reverted InvalidBatchID st)"

definition onlyCurrentOwner :: "env \<Rightarrow> state \<Rightarrow> uint256 \<Rightarrow> 'a outcome \<Rightarrow> 'a outcome" where
  "onlyCurrentOwner e st b body =
     (if currentOwner (batches st b) = msg_sender e then body else Reverted NotCurrentOwner st)"

text \<open>
  The modifier of the imported library contract \<^verbatim>\<open>Ownable\<close>:
  \<^verbatim>\<open>require(owner() == msg.sender, "Ownable: caller is not the owner")\<close>.
\<close>

definition onlyOwner :: "env \<Rightarrow> state \<Rightarrow> 'a outcome \<Rightarrow> 'a outcome" where
  "onlyOwner e st body =
     (if owner st = msg_sender e then body else Reverted CallerNotOwner st)"

text \<open>
  The modifier of the imported library contract \<^verbatim>\<open>ReentrancyGuard\<close>:
  \<^verbatim>\<open>require(_status != _ENTERED, "ReentrancyGuard: reentrant call")\<close>, then the flag
  is set, the body runs, and the flag is cleared again.
\<close>

definition nonReentrant :: "(state \<Rightarrow> 'a outcome) \<Rightarrow> state \<Rightarrow> 'a outcome" where
  "nonReentrant body st =
     (if entered st then Reverted ReentrantCall st
      else (case body (st\<lparr>entered := True\<rparr>) of
              Returned r st' \<Rightarrow> Returned r (st'\<lparr>entered := False\<rparr>)
            | Reverted e d \<Rightarrow> Reverted e d))"

section \<open>Participant management\<close>

definition registerParticipant :: "env \<Rightarrow> string \<Rightarrow> string \<Rightarrow> Role \<Rightarrow> state \<Rightarrow> unit outcome" where
  "registerParticipant e nm loc r st =
     (if isActive (participants st (msg_sender e)) then Reverted AlreadyRegistered st
      else if nm = [] then Reverted NameEmpty st
      else if loc = [] then Reverted LocationEmpty st
      else Returned ()
             (st\<lparr>participants := (participants st)(msg_sender e :=
                   \<lparr>name = nm, location_P = loc, role = r, isActive = True, reputation = 100\<rparr>)\<rparr>))"

section \<open>Product and batch management\<close>

text \<open>
  \<^verbatim>\<open>nextProductId++\<close> is checked arithmetic: at the largest value it panics.
  The product struct is filled field by field, all nine fields.
\<close>

definition createProduct ::
  "env \<Rightarrow> string \<Rightarrow> string \<Rightarrow> uint256 \<Rightarrow> string \<Rightarrow> bool \<Rightarrow> string list \<Rightarrow> state \<Rightarrow> uint256 outcome" where
  "createProduct e pname var qty hdate organic certs st =
     onlyRegistered e st (onlyRole e st Farmer
       (if pname = [] then Reverted ProductNameEmpty st
        else if \<not> 0 < qty then Reverted QuantityZero st
        else if nextProductId st = - 1 then Reverted ArithmeticPanic st
        else
          (let pid = nextProductId st in
           Returned pid
             (st\<lparr>nextProductId := pid + 1,
                 products := (products st)(pid :=
                   \<lparr>productId_P = pid, productName = pname, variety = var, quantity = qty,
                    harvestDate = hdate, farmer = msg_sender e, currentQuality = Excellent,
                    isOrganic = organic, certifications = certs\<rparr>)\<rparr>))))"

text \<open>
  The batch struct is written through a storage reference: six fields are assigned, the
  three histories are pushed onto whatever the slot holds, the notes are left alone.
\<close>

definition createBatch :: "env \<Rightarrow> uint256 \<Rightarrow> string \<Rightarrow> string \<Rightarrow> state \<Rightarrow> uint256 outcome" where
  "createBatch e pid qr loc st =
     onlyRegistered e st (onlyRole e st Farmer
       (if farmer (products st pid) \<noteq> msg_sender e then Reverted NotProductOwner st
        else if qrCodeToBatch st qr \<noteq> 0 then Reverted QRCodeExists st
        else if qr = [] then Reverted QRCodeEmpty st
        else if loc = [] then Reverted LocationEmpty st
        else if nextBatchId st = - 1 then Reverted ArithmeticPanic st
        else
          (let bid = nextBatchId st; old = batches st bid in
           Returned bid
             (st\<lparr>nextBatchId := bid + 1,
                 batches := (batches st)(bid :=
                   old\<lparr>batchId_B := bid, productId_B := pid, currentStage := Harvested,
                       currentOwner := msg_sender e, timestamp_B := block_timestamp e,
                       location_B := loc,
                       ownershipHistory := ownershipHistory old @ [msg_sender e],
                       locationHistory := locationHistory old @ [loc],
                       stageTimestamps := stageTimestamps old @ [block_timestamp e]\<rparr>),
                 qrCodeToBatch := (qrCodeToBatch st)(qr := bid)\<rparr>))))"

section \<open>Environmental data\<close>

definition recordEnvironmentData ::
  "env \<Rightarrow> uint256 \<Rightarrow> int256 \<Rightarrow> uint256 \<Rightarrow> string \<Rightarrow> string \<Rightarrow> state \<Rightarrow> unit outcome" where
  "recordEnvironmentData e b temp hum loc nts st =
     onlyRegistered e st (validBatch st b
       (if loc = [] then Reverted LocationEmpty st
        else
          (let newRecord = \<lparr>timestamp_E = block_timestamp e, temperature = temp, humidity = hum,
                            location_E = loc, recorder = msg_sender e, notes_E = nts\<rparr> in
           Returned ()
             (st\<lparr>batchEnvironmentData := (batchEnvironmentData st)(b :=
                   batchEnvironmentData st b @ [newRecord])\<rparr>))))"

section \<open>Supply chain tracking\<close>

definition transferBatchOwnership ::
  "env \<Rightarrow> uint256 \<Rightarrow> address \<Rightarrow> Stage \<Rightarrow> string \<Rightarrow> state \<Rightarrow> unit outcome" where
  "transferBatchOwnership e b newOwner newStage newLocation st =
     validBatch st b (onlyCurrentOwner e st b (onlyRegistered e st
       (if \<not> isActive (participants st newOwner) then Reverted NewOwnerNotRegistered st
        else if newStage = currentStage (batches st b) then Reverted StageMustChange st
        else if \<not> uint8_of_Stage (currentStage (batches st b)) < uint8_of_Stage newStage
          then Reverted StageMustProgressForward st
        else if newLocation = [] then Reverted LocationEmpty st
        else
          (let batch = batches st b in
           Returned ()
             (st\<lparr>batches := (batches st)(b :=
                   batch\<lparr>currentOwner := newOwner, currentStage := newStage,
                         location_B := newLocation, timestamp_B := block_timestamp e,
                         ownershipHistory := ownershipHistory batch @ [newOwner],
                         locationHistory := locationHistory batch @ [newLocation],
                         stageTimestamps := stageTimestamps batch @ [block_timestamp e]\<rparr>)\<rparr>)))))"

section \<open>Quality and notes\<close>

fun getQualityString :: "Quality \<Rightarrow> string" where
  "getQualityString Excellent = ''Excellent''"
| "getQualityString Good = ''Good''"
| "getQualityString Fair = ''Fair''"
| "getQualityString Poor = ''Poor''"

definition updateQuality :: "env \<Rightarrow> uint256 \<Rightarrow> Quality \<Rightarrow> string \<Rightarrow> state \<Rightarrow> unit outcome" where
  "updateQuality e b newQuality reason st =
     onlyRegistered e st (validBatch st b
       (if \<not> (currentOwner (batches st b) = msg_sender e
               \<or> role (participants st (msg_sender e)) = Supplier
               \<or> role (participants st (msg_sender e)) = Distributor)
        then Reverted NotAuthorizedQuality st
        else
          (let p = productId_B (batches st b);
               st1 = st\<lparr>products := (products st)(p :=
                        (products st p)\<lparr>currentQuality := newQuality\<rparr>)\<rparr>;
               st2 = (if reason \<noteq> []
                      then st1\<lparr>batches := (batches st1)(b :=
                             (batches st1 b)\<lparr>notes_B := notes_B (batches st1 b)
                                @ '' | Quality updated to '' @ getQualityString newQuality
                                @ '': '' @ reason\<rparr>)\<rparr>
                      else st1)
           in Returned () st2)))"

definition addBatchNote :: "env \<Rightarrow> uint256 \<Rightarrow> string \<Rightarrow> state \<Rightarrow> unit outcome" where
  "addBatchNote e b note st =
     onlyRegistered e st (validBatch st b
       (if note = [] then Reverted NoteEmpty st
        else Returned ()
               (st\<lparr>batches := (batches st)(b :=
                     (batches st b)\<lparr>notes_B := notes_B (batches st b) @ '' | '' @ note\<rparr>)\<rparr>)))"

section \<open>Escrow transactions\<close>

definition createTransaction ::
  "env \<Rightarrow> uint256 \<Rightarrow> address \<Rightarrow> uint256 \<Rightarrow> string \<Rightarrow> state \<Rightarrow> uint256 outcome" where
  "createTransaction e b buyer prc ttype st =
     validBatch st b (onlyCurrentOwner e st b
       (if \<not> isActive (participants st buyer) then Reverted BuyerNotRegistered st
        else if \<not> 0 < prc then Reverted PriceZero st
        else if ttype = [] then Reverted TransactionTypeEmpty st
        else if nextTransactionId st = - 1 then Reverted ArithmeticPanic st
        else
          (let tid = nextTransactionId st in
           Returned tid
             (st\<lparr>nextTransactionId := tid + 1,
                 transactions := (transactions st)(tid :=
                   \<lparr>transactionId = tid, batchId_T = b, from_T = msg_sender e, to_T = buyer,
                    timestamp_T = block_timestamp e, price = prc, transactionType = ttype,
                    completed = False\<rparr>)\<rparr>))))"

text \<open>
  \<^verbatim>\<open>payable(a).transfer(v)\<close> moves \<open>v\<close> from the contract to \<open>a\<close> and runs the
  code of \<open>a\<close>, which may refuse the payment; a refusal, or a balance that is too small,
  reverts. The recipient's code is a parameter: \<open>acc a st\<close> says whether \<open>a\<close>, run
  while the contract is in storage \<open>st\<close>, accepts the payment. The call forwards 2300
  gas, too little for the recipient to write to the contract: whatever it reads or
  attempts shows only in whether it accepts.
\<close>

type_synonym receiver = "address \<Rightarrow> state \<Rightarrow> bool"

definition transfer :: "receiver \<Rightarrow> address \<Rightarrow> uint256 \<Rightarrow> state \<Rightarrow> unit outcome" where
  "transfer acc rcpt amount st =
     (if contractBalance st < unat amount then Reverted TransferFailed st
      else
        (let st' = st\<lparr>contractBalance := contractBalance st - unat amount,
                       paidOut := (paidOut st)(rcpt := paidOut st rcpt + unat amount)\<rparr>
         in if acc rcpt st' then Returned () st' else Reverted TransferFailed st'))"

text \<open>
  The storage writes of \<^verbatim>\<open>completeTransaction\<close>, in source order: the completed
  flag first, then the batch behind the transaction (owner, timestamp and one push onto
  each history; stage and location stay).
\<close>

definition completeTransaction_effects :: "env \<Rightarrow> uint256 \<Rightarrow> state \<Rightarrow> state" where
  "completeTransaction_effects e tid st =
     (let st1 = st\<lparr>transactions := (transactions st)(tid :=
                   (transactions st tid)\<lparr>completed := True\<rparr>)\<rparr>;
          txn = transactions st1 tid;
          batch = batches st1 (batchId_T txn)
      in st1\<lparr>batches := (batches st1)(batchId_T txn :=
               batch\<lparr>currentOwner := to_T txn, timestamp_B := block_timestamp e,
                     ownershipHistory := ownershipHistory batch @ [to_T txn],
                     locationHistory := locationHistory batch @ [location_B batch],
                     stageTimestamps := stageTimestamps batch @ [block_timestamp e]\<rparr>)\<rparr>)"

text \<open>
  The function is payable: the value sent with the call is in the contract's balance
  before the guard and the body run. The body checks, writes, and only then pays the
  seller and refunds the excess.
\<close>

definition completeTransaction ::
  "receiver \<Rightarrow> env \<Rightarrow> uint256 \<Rightarrow> uint256 \<Rightarrow> state \<Rightarrow> unit outcome" where
  "completeTransaction acc e tid msg_value st0 =
     nonReentrant
       (\<lambda>st.
          (let txn = transactions st tid in
           if msg_sender e \<noteq> to_T txn then Reverted NotTheBuyer st
           else if completed txn then Reverted AlreadyCompleted st
           else if msg_value < price txn then Reverted InsufficientPayment st
           else
             (let st1 = completeTransaction_effects e tid st in
              case transfer acc (from_T (transactions st1 tid)) (price (transactions st1 tid)) st1 of
                Reverted err d \<Rightarrow> Reverted err d
              | Returned _ st2 \<Rightarrow>
                  if price (transactions st2 tid) < msg_value
                  then transfer acc (msg_sender e) (msg_value - price (transactions st2 tid)) st2
                  else Returned () st2)))
       (st0\<lparr>contractBalance := contractBalance st0 + unat msg_value\<rparr>)"

section \<open>Administration\<close>

definition updateParticipantReputation :: "env \<Rightarrow> address \<Rightarrow> uint256 \<Rightarrow> state \<Rightarrow> unit outcome" where
  "updateParticipantReputation e p newReputation st =
     onlyOwner e st
       (if \<not> isActive (participants st p) then Reverted ParticipantNotActive st
        else Returned ()
               (st\<lparr>participants := (participants st)(p :=
                     (participants st p)\<lparr>reputation := newReputation\<rparr>)\<rparr>))"

definition deactivateParticipant :: "env \<Rightarrow> address \<Rightarrow> state \<Rightarrow> unit outcome" where
  "deactivateParticipant e p st =
     onlyOwner e st
       (Returned ()
          (st\<lparr>participants := (participants st)(p :=
                (participants st p)\<lparr>isActive := False\<rparr>)\<rparr>))"

definition pause :: "env \<Rightarrow> state \<Rightarrow> unit outcome" where
  "pause e st = onlyOwner e st (Returned () st)"

definition unpause :: "env \<Rightarrow> state \<Rightarrow> unit outcome" where
  "unpause e st = onlyOwner e st (Returned () st)"

text \<open>
  The two external functions the contract inherits from \<^verbatim>\<open>Ownable\<close>; they write
  the owner only.
\<close>

definition transferOwnership :: "env \<Rightarrow> address \<Rightarrow> state \<Rightarrow> unit outcome" where
  "transferOwnership e newOwner st =
     onlyOwner e st
       (if newOwner = 0 then Reverted NewOwnerZero st
        else Returned () (st\<lparr>owner := newOwner\<rparr>))"

definition renounceOwnership :: "env \<Rightarrow> state \<Rightarrow> unit outcome" where
  "renounceOwnership e st = onlyOwner e st (Returned () (st\<lparr>owner := 0\<rparr>))"

section \<open>Queries\<close>

text \<open>A view cannot write: it answers a value or reverts.\<close>

definition validBatch_view :: "state \<Rightarrow> uint256 \<Rightarrow> error + 'a \<Rightarrow> error + 'a" where
  "validBatch_view st b body =
     (if 0 < b \<and> b < nextBatchId st then body else Inl InvalidBatchID)"

definition getBatchHistory ::
  "state \<Rightarrow> uint256 \<Rightarrow> error + (address list \<times> string list \<times> uint256 list)" where
  "getBatchHistory st b =
     validBatch_view st b
       (Inr (ownershipHistory (batches st b), locationHistory (batches st b),
             stageTimestamps (batches st b)))"

definition getEnvironmentDataCount :: "state \<Rightarrow> uint256 \<Rightarrow> error + uint256" where
  "getEnvironmentDataCount st b =
     validBatch_view st b (Inr (of_nat (length (batchEnvironmentData st b))))"

definition getEnvironmentData ::
  "state \<Rightarrow> uint256 \<Rightarrow> uint256 \<Rightarrow>
     error + (uint256 \<times> int256 \<times> uint256 \<times> string \<times> address \<times> string)" where
  "getEnvironmentData st b i =
     validBatch_view st b
       (if \<not> unat i < length (batchEnvironmentData st b) then Inl InvalidIndex
        else
          (let record = batchEnvironmentData st b ! unat i in
           Inr (timestamp_E record, temperature record, humidity record, location_E record,
                recorder record, notes_E record)))"

definition getBatchByQR :: "state \<Rightarrow> string \<Rightarrow> uint256" where
  "getBatchByQR st qr = qrCodeToBatch st qr"

definition getProductInfo ::
  "state \<Rightarrow> uint256 \<Rightarrow>
     error + (string \<times> string \<times> uint256 \<times> address \<times> Quality \<times> bool \<times> string list)" where
  "getProductInfo st pid =
     (let product = products st pid in
      Inr (productName product, variety product, quantity product, farmer product,
           currentQuality product, isOrganic product, certifications product))"

definition getBatchDetails ::
  "state \<Rightarrow> uint256 \<Rightarrow>
     error + (uint256 \<times> uint256 \<times> Stage \<times> address \<times> string \<times> string \<times> uint256)" where
  "getBatchDetails st b =
     validBatch_view st b
       (let batch = batches st b in
        Inr (batchId_B batch, productId_B batch, currentStage batch, currentOwner batch,
             location_B batch, notes_B batch, of_nat (length (batchEnvironmentData st b))))"

section \<open>Transactions on the ledger\<close>

text \<open>
  The external, state-changing interface as data. \<open>CompleteTransaction\<close> carries the
  value sent with the call; the other functions are not payable, so a call to one of
  them carries none.
\<close>

datatype call =
    RegisterParticipant string string Role
  | CreateProduct string string uint256 string bool "string list"
  | CreateBatch uint256 string string
  | RecordEnvironmentData uint256 int256 uint256 string string
  | TransferBatchOwnership uint256 address Stage string
  | UpdateQuality uint256 Quality string
  | AddBatchNote uint256 string
  | CreateTransaction uint256 address uint256 string
  | CompleteTransaction uint256 uint256
  | UpdateParticipantReputation address uint256
  | DeactivateParticipant address
  | Pause
  | Unpause
  | TransferOwnership address
  | RenounceOwnership

text \<open>
  The value a call hands back to its caller: \<open>Some v\<close> for a function declared with
  \<^verbatim>\<open>returns (uint256)\<close>, \<open>None\<close> for a function declared without a return value.
\<close>

fun returns_uint256 :: "uint256 outcome \<Rightarrow> uint256 option outcome" where
  "returns_uint256 (Returned v st) = Returned (Some v) st"
| "returns_uint256 (Reverted err d) = Reverted err d"

fun returns_nothing :: "unit outcome \<Rightarrow> uint256 option outcome" where
  "returns_nothing (Returned _ st) = Returned None st"
| "returns_nothing (Reverted err d) = Reverted err d"

fun exec :: "receiver \<Rightarrow> env \<Rightarrow> call \<Rightarrow> state \<Rightarrow> uint256 option outcome" where
  "exec acc e (RegisterParticipant nm loc r) st = returns_nothing (registerParticipant e nm loc r st)"
| "exec acc e (CreateProduct pname var qty hdate organic certs) st =
     returns_uint256 (createProduct e pname var qty hdate organic certs st)"
| "exec acc e (CreateBatch pid qr loc) st = returns_uint256 (createBatch e pid qr loc st)"
| "exec acc e (RecordEnvironmentData b temp hum loc nts) st =
     returns_nothing (recordEnvironmentData e b temp hum loc nts st)"
| "exec acc e (TransferBatchOwnership b newOwner newStage newLocation) st =
     returns_nothing (transferBatchOwnership e b newOwner newStage newLocation st)"
| "exec acc e (UpdateQuality b q reason) st = returns_nothing (updateQuality e b q reason st)"
| "exec acc e (AddBatchNote b note) st = returns_nothing (addBatchNote e b note st)"
| "exec acc e (CreateTransaction b buyer prc ttype) st =
     returns_uint256 (createTransaction e b buyer prc ttype st)"
| "exec acc e (CompleteTransaction tid msg_value) st =
     returns_nothing (completeTransaction acc e tid msg_value st)"
| "exec acc e (UpdateParticipantReputation p v) st =
     returns_nothing (updateParticipantReputation e p v st)"
| "exec acc e (DeactivateParticipant p) st = returns_nothing (deactivateParticipant e p st)"
| "exec acc e Pause st = returns_nothing (pause e st)"
| "exec acc e Unpause st = returns_nothing (unpause e st)"
| "exec acc e (TransferOwnership newOwner) st = returns_nothing (transferOwnership e newOwner st)"
| "exec acc e RenounceOwnership st = returns_nothing (renounceOwnership e st)"

text \<open>
  The platform commits the storage of a call that returns and discards every write of
  a call that reverts. \<open>run\<close> applies a sequence of calls, each with its own sender and
  block time, in order.
\<close>

definition transact :: "receiver \<Rightarrow> env \<Rightarrow> call \<Rightarrow> state \<Rightarrow> state" where
  "transact acc e c st =
     (case exec acc e c st of Returned _ st' \<Rightarrow> st' | Reverted _ _ \<Rightarrow> st)"

fun run :: "receiver \<Rightarrow> (env \<times> call) list \<Rightarrow> state \<Rightarrow> state" where
  "run acc [] st = st"
| "run acc ((e, c) # cs) st = run acc cs (transact acc e c st)"

section \<open>Notions used to state the properties\<close>

text \<open>The error of a call that reverted, the value of a call that returned.\<close>

fun failure :: "'a outcome \<Rightarrow> error option" where
  "failure (Returned _ _) = None"
| "failure (Reverted err _) = Some err"

fun returned :: "'a outcome \<Rightarrow> 'a option" where
  "returned (Returned r _) = Some r"
| "returned (Reverted _ _) = None"

text \<open>The storage a call ended with: what it leaves, or what it had written when it reverted.\<close>

fun storage_at_end :: "'a outcome \<Rightarrow> state" where
  "storage_at_end (Returned _ st) = st"
| "storage_at_end (Reverted _ d) = d"

text \<open>
  The entity tables of the ledger: participants, products, batches, the code index, the
  provenance logs and the transactions.
\<close>

definition entities ::
  "state \<Rightarrow> (address \<Rightarrow> Participant) \<times> (uint256 \<Rightarrow> Product) \<times> (uint256 \<Rightarrow> BatchTracking) \<times>
     (string \<Rightarrow> uint256) \<times> (uint256 \<Rightarrow> EnvironmentRecord list) \<times> (uint256 \<Rightarrow> Transaction)" where
  "entities st =
     (participants st, products st, batches st, qrCodeToBatch st, batchEnvironmentData st,
      transactions st)"

text \<open>A recipient that accepts every payment (an externally owned account).\<close>

definition accept_all :: receiver where
  "accept_all a st = True"

text \<open>A recipient that refuses every payment (a contract without a payable fallback).\<close>

definition refuse_all :: receiver where
  "refuse_all a st = False"

text \<open>
  No account sends from the zero address; \<open>senders_nonzero\<close> says so of a sequence of
  calls. \<open>never_registers p\<close> says that \<open>p\<close> sends no \<^verbatim>\<open>registerParticipant\<close> in it.
\<close>

definition senders_nonzero :: "(env \<times> call) list \<Rightarrow> bool" where
  "senders_nonzero cs = list_all (\<lambda>(e, c). msg_sender e \<noteq> 0) cs"

fun is_RegisterParticipant :: "call \<Rightarrow> bool" where
  "is_RegisterParticipant (RegisterParticipant _ _ _) = True"
| "is_RegisterParticipant _ = False"

definition never_registers :: "address \<Rightarrow> (env \<times> call) list \<Rightarrow> bool" where
  "never_registers p cs =
     list_all (\<lambda>(e, c). \<not> (msg_sender e = p \<and> is_RegisterParticipant c)) cs"

text \<open>
  The histories of every batch have one length, and a created batch has at least one
  entry.
\<close>

definition histories_aligned :: "state \<Rightarrow> bool" where
  "histories_aligned st \<longleftrightarrow>
     (\<forall>b. length (ownershipHistory (batches st b)) = length (locationHistory (batches st b)) \<and>
          length (locationHistory (batches st b)) = length (stageTimestamps (batches st b)) \<and>
          (0 < b \<and> b < nextBatchId st \<longrightarrow> 1 \<le> length (ownershipHistory (batches st b))))"

text \<open>
  Two facts about the storage that hold after every sequence of calls (proved below):
  a product slot outside the assigned ids \<open>1 .. nextProductId - 1\<close> holds the zero
  product and every created batch names an assigned product; a transaction slot outside
  the assigned ids holds the zero transaction and the reentrancy flag is clear between
  calls.
\<close>

definition products_assigned :: "state \<Rightarrow> bool" where
  "products_assigned st \<longleftrightarrow>
     nextProductId st \<noteq> 0 \<and>
     (\<forall>p. p = 0 \<or> nextProductId st \<le> p \<longrightarrow> products st p = zero_Product) \<and>
     (\<forall>b. 0 < b \<and> b < nextBatchId st \<longrightarrow>
          0 < productId_B (batches st b) \<and> productId_B (batches st b) < nextProductId st)"

definition transactions_assigned :: "state \<Rightarrow> bool" where
  "transactions_assigned st \<longleftrightarrow>
     \<not> entered st \<and> nextTransactionId st \<noteq> 0 \<and>
     (\<forall>t. t = 0 \<or> nextTransactionId st \<le> t \<longrightarrow> transactions st t = zero_Transaction)"

text \<open>
  A small ledger used in the examples: account 9 deploys; account 1 registers as a
  farmer, account 2 as a distributor; account 1 creates product 1 and batch 1 with code
  \<open>QR1\<close>, then offers the batch to account 2 for 100; account 2 settles, paying 150.
  In a second continuation account 1 hands the batch to account 2 at stage Processed.
\<close>

definition sent_by :: "address \<Rightarrow> uint256 \<Rightarrow> env" where
  "sent_by a t = \<lparr>msg_sender = a, block_timestamp = t\<rparr>"

definition demo_product_calls :: "(env \<times> call) list" where
  "demo_product_calls =
     [(sent_by 1 1000, RegisterParticipant ''Farm A'' ''Valley'' Farmer),
      (sent_by 2 1001, RegisterParticipant ''Dist Co'' ''Town'' Distributor),
      (sent_by 1 1002, CreateProduct ''Tomatoes'' ''Roma'' 1000 ''2024-01-15'' True [])]"

definition demo_calls :: "(env \<times> call) list" where
  "demo_calls = demo_product_calls @ [(sent_by 1 1003, CreateBatch 1 ''QR1'' ''Warehouse'')]"

definition demo_pending_calls :: "(env \<times> call) list" where
  "demo_pending_calls = demo_calls @ [(sent_by 1 1004, CreateTransaction 1 2 100 ''sale'')]"

definition demo_settled_calls :: "(env \<times> call) list" where
  "demo_settled_calls = demo_pending_calls @ [(sent_by 2 1005, CompleteTransaction 1 150)]"

definition demo_processed_calls :: "(env \<times> call) list" where
  "demo_processed_calls =
     demo_calls @ [(sent_by 1 1010, TransferBatchOwnership 1 2 Processed ''Plant'')]"

definition demo_batch :: state where
  "demo_batch = run accept_all demo_calls (constructor 9)"

definition demo_pending :: state where
  "demo_pending = run accept_all demo_pending_calls (constructor 9)"

definition demo_settled :: state where
  "demo_settled = run accept_all demo_settled_calls (constructor 9)"

definition demo_processed :: state where
  "demo_processed = run accept_all demo_processed_calls (constructor 9)"

text \<open>
  A recipient that accepts a payment only when it sees the guard set, the transaction
  \<open>tid\<close> completed and the batch \<open>b\<close> owned by \<open>buyer\<close>.
\<close>

definition settled_only :: "uint256 \<Rightarrow> uint256 \<Rightarrow> address \<Rightarrow> receiver" where
  "settled_only tid b buyer a st \<longleftrightarrow>
     entered st \<and> completed (transactions st tid) \<and> currentOwner (batches st b) = buyer"

text \<open>
  A recipient that, when account 2 is paid, calls \<^verbatim>\<open>completeTransaction(1)\<close> again as
  account 2 and accepts the payment only if that inner call failed with the error
  \<open>expected\<close>.
\<close>

definition reentrant_probe :: "error \<Rightarrow> receiver" where
  "reentrant_probe expected a st =
     (a = 2 \<longrightarrow> failure (completeTransaction accept_all (sent_by 2 1005) 1 0 st) = Some expected)"

section \<open>What each call does when it returns\<close>

lemmas modifier_defs =
  onlyRegistered_def onlyRole_def validBatch_def onlyCurrentOwner_def onlyOwner_def

lemmas demo_defs =
  demo_batch_def demo_pending_def demo_settled_def demo_product_calls_def demo_calls_def
  demo_pending_calls_def demo_settled_calls_def demo_processed_calls_def demo_processed_def
  sent_by_def accept_all_def
  transact_def constructor_def zero_Participant_def zero_Product_def zero_BatchTracking_def
  zero_Transaction_def modifier_defs registerParticipant_def createProduct_def createBatch_def
  createTransaction_def completeTransaction_def nonReentrant_def completeTransaction_effects_def
  transfer_def transferBatchOwnership_def Let_def

lemma failure_returns_nothing [simp]: "failure (returns_nothing x) = failure x"
  by (cases x) auto

lemma failure_returns_uint256 [simp]: "failure (returns_uint256 x) = failure x"
  by (cases x) auto

lemma storage_at_end_returns_nothing [simp]: "storage_at_end (returns_nothing x) = storage_at_end x"
  by (cases x) auto

lemma storage_at_end_returns_uint256 [simp]: "storage_at_end (returns_uint256 x) = storage_at_end x"
  by (cases x) auto

lemma returned_returns_nothing [simp]: "returned (returns_nothing x) = map_option (\<lambda>_. None) (returned x)"
  by (cases x) auto

lemma failure_None_iff: "failure x = None \<longleftrightarrow> (\<exists>r st'. x = Returned r st')"
  by (cases x) auto

lemma failure_Some_iff: "failure x = Some err \<longleftrightarrow> (\<exists>d. x = Reverted err d)"
  by (cases x) auto

lemma transact_Reverted: "exec acc e c st = Reverted err d \<Longrightarrow> transact acc e c st = st"
  by (simp add: transact_def)

lemma transact_Returned: "exec acc e c st = Returned r st' \<Longrightarrow> transact acc e c st = st'"
  by (simp add: transact_def)

lemma transact_failure: "failure (exec acc e c st) = Some err \<Longrightarrow> transact acc e c st = st"
  by (cases "exec acc e c st") (auto simp: transact_def)

lemma run_append: "run acc (cs @ cs') st = run acc cs' (run acc cs st)"
  by (induction cs arbitrary: st) auto

lemma returns_nothing_Returned:
  "returns_nothing x = Returned r st' \<longleftrightarrow> r = None \<and> x = Returned () st'"
  by (cases x) auto

lemma returns_uint256_Returned:
  "returns_uint256 x = Returned r st' \<longleftrightarrow> (\<exists>v. r = Some v \<and> x = Returned v st')"
  by (cases x) auto

lemma returns_nothing_Reverted: "returns_nothing x = Reverted err d \<longleftrightarrow> x = Reverted err d"
  by (cases x) auto

lemma returns_uint256_Reverted: "returns_uint256 x = Reverted err d \<longleftrightarrow> x = Reverted err d"
  by (cases x) auto

lemma registerParticipant_Returned:
  "registerParticipant e nm loc r st = Returned u st' \<longleftrightarrow>
     \<not> isActive (participants st (msg_sender e)) \<and> nm \<noteq> [] \<and> loc \<noteq> [] \<and>
     st' = st\<lparr>participants := (participants st)(msg_sender e :=
              \<lparr>name = nm, location_P = loc, role = r, isActive = True, reputation = 100\<rparr>)\<rparr>"
  by (auto simp: registerParticipant_def)

lemma createProduct_Returned:
  "createProduct e pname var qty hdate organic certs st = Returned pid st' \<longleftrightarrow>
     isActive (participants st (msg_sender e)) \<and> role (participants st (msg_sender e)) = Farmer \<and>
     pname \<noteq> [] \<and> 0 < qty \<and> nextProductId st \<noteq> - 1 \<and> pid = nextProductId st \<and>
     st' = st\<lparr>nextProductId := nextProductId st + 1,
              products := (products st)(nextProductId st :=
                \<lparr>productId_P = nextProductId st, productName = pname, variety = var, quantity = qty,
                 harvestDate = hdate, farmer = msg_sender e, currentQuality = Excellent,
                 isOrganic = organic, certifications = certs\<rparr>)\<rparr>"
  by (auto simp: createProduct_def modifier_defs Let_def)

lemma createBatch_Returned:
  "createBatch e pid qr loc st = Returned bid st' \<longleftrightarrow>
     isActive (participants st (msg_sender e)) \<and> role (participants st (msg_sender e)) = Farmer \<and>
     farmer (products st pid) = msg_sender e \<and> qrCodeToBatch st qr = 0 \<and> qr \<noteq> [] \<and> loc \<noteq> [] \<and>
     nextBatchId st \<noteq> - 1 \<and> bid = nextBatchId st \<and>
     st' = st\<lparr>nextBatchId := nextBatchId st + 1,
              batches := (batches st)(nextBatchId st :=
                (batches st (nextBatchId st))\<lparr>batchId_B := nextBatchId st, productId_B := pid,
                   currentStage := Harvested, currentOwner := msg_sender e,
                   timestamp_B := block_timestamp e, location_B := loc,
                   ownershipHistory := ownershipHistory (batches st (nextBatchId st)) @ [msg_sender e],
                   locationHistory := locationHistory (batches st (nextBatchId st)) @ [loc],
                   stageTimestamps := stageTimestamps (batches st (nextBatchId st)) @ [block_timestamp e]\<rparr>),
              qrCodeToBatch := (qrCodeToBatch st)(qr := nextBatchId st)\<rparr>"
  by (auto simp: createBatch_def modifier_defs Let_def)

lemma recordEnvironmentData_Returned:
  "recordEnvironmentData e b temp hum loc nts st = Returned u st' \<longleftrightarrow>
     isActive (participants st (msg_sender e)) \<and> 0 < b \<and> b < nextBatchId st \<and> loc \<noteq> [] \<and>
     st' = st\<lparr>batchEnvironmentData := (batchEnvironmentData st)(b :=
              batchEnvironmentData st b @
                [\<lparr>timestamp_E = block_timestamp e, temperature = temp, humidity = hum,
                  location_E = loc, recorder = msg_sender e, notes_E = nts\<rparr>])\<rparr>"
  by (auto simp: recordEnvironmentData_def modifier_defs Let_def)

lemma transferBatchOwnership_Returned:
  "transferBatchOwnership e b newOwner newStage newLocation st = Returned u st' \<longleftrightarrow>
     0 < b \<and> b < nextBatchId st \<and> currentOwner (batches st b) = msg_sender e \<and>
     isActive (participants st (msg_sender e)) \<and> isActive (participants st newOwner) \<and>
     uint8_of_Stage (currentStage (batches st b)) < uint8_of_Stage newStage \<and> newLocation \<noteq> [] \<and>
     st' = st\<lparr>batches := (batches st)(b :=
              (batches st b)\<lparr>currentOwner := newOwner, currentStage := newStage,
                 location_B := newLocation, timestamp_B := block_timestamp e,
                 ownershipHistory := ownershipHistory (batches st b) @ [newOwner],
                 locationHistory := locationHistory (batches st b) @ [newLocation],
                 stageTimestamps := stageTimestamps (batches st b) @ [block_timestamp e]\<rparr>)\<rparr>"
  by (auto simp: transferBatchOwnership_def modifier_defs Let_def)

lemma updateQuality_Returned:
  "updateQuality e b q reason st = Returned u st' \<longleftrightarrow>
     isActive (participants st (msg_sender e)) \<and> 0 < b \<and> b < nextBatchId st \<and>
     (currentOwner (batches st b) = msg_sender e
        \<or> role (participants st (msg_sender e)) = Supplier
        \<or> role (participants st (msg_sender e)) = Distributor) \<and>
     st' = st\<lparr>products := (products st)(productId_B (batches st b) :=
                 (products st (productId_B (batches st b)))\<lparr>currentQuality := q\<rparr>),
              batches := (batches st)(b := (batches st b)\<lparr>notes_B :=
                 (if reason \<noteq> []
                  then notes_B (batches st b) @ '' | Quality updated to '' @ getQualityString q
                         @ '': '' @ reason
                  else notes_B (batches st b))\<rparr>)\<rparr>"
  by (auto simp: updateQuality_def modifier_defs Let_def)

lemma addBatchNote_Returned:
  "addBatchNote e b note st = Returned u st' \<longleftrightarrow>
     isActive (participants st (msg_sender e)) \<and> 0 < b \<and> b < nextBatchId st \<and> note \<noteq> [] \<and>
     st' = st\<lparr>batches := (batches st)(b :=
              (batches st b)\<lparr>notes_B := notes_B (batches st b) @ '' | '' @ note\<rparr>)\<rparr>"
  by (auto simp: addBatchNote_def modifier_defs Let_def)

lemma createTransaction_Returned:
  "createTransaction e b buyer prc ttype st = Returned tid st' \<longleftrightarrow>
     0 < b \<and> b < nextBatchId st \<and> currentOwner (batches st b) = msg_sender e \<and>
     isActive (participants st buyer) \<and> 0 < prc \<and> ttype \<noteq> [] \<and> nextTransactionId st \<noteq> - 1 \<and>
     tid = nextTransactionId st \<and>
     st' = st\<lparr>nextTransactionId := nextTransactionId st + 1,
              transactions := (transactions st)(nextTransactionId st :=
                \<lparr>transactionId = nextTransactionId st, batchId_T = b, from_T = msg_sender e,
                 to_T = buyer, timestamp_T = block_timestamp e, price = prc,
                 transactionType = ttype, completed = False\<rparr>)\<rparr>"
  by (auto simp: createTransaction_def modifier_defs Let_def)

lemma completeTransaction_Returned:
  "completeTransaction acc e tid v st = Returned u st' \<Longrightarrow>
     \<not> entered st \<and> msg_sender e = to_T (transactions st tid) \<and>
     \<not> completed (transactions st tid) \<and> price (transactions st tid) \<le> v \<and>
     st' = (completeTransaction_effects e tid st)
              \<lparr>entered := False, contractBalance := contractBalance st', paidOut := paidOut st'\<rparr>"
  by (auto simp: completeTransaction_def nonReentrant_def completeTransaction_effects_def
        transfer_def Let_def not_less split: if_splits outcome.splits)

lemma updateParticipantReputation_Returned:
  "updateParticipantReputation e p v st = Returned u st' \<longleftrightarrow>
     owner st = msg_sender e \<and> isActive (participants st p) \<and>
     st' = st\<lparr>participants := (participants st)(p := (participants st p)\<lparr>reputation := v\<rparr>)\<rparr>"
  by (auto simp: updateParticipantReputation_def modifier_defs)

lemma deactivateParticipant_Returned:
  "deactivateParticipant e p st = Returned u st' \<longleftrightarrow>
     owner st = msg_sender e \<and>
     st' = st\<lparr>participants := (participants st)(p := (participants st p)\<lparr>isActive := False\<rparr>)\<rparr>"
  by (auto simp: deactivateParticipant_def modifier_defs)

lemma pause_Returned: "pause e st = Returned u st' \<longleftrightarrow> owner st = msg_sender e \<and> st' = st"
  by (auto simp: pause_def modifier_defs)

lemma unpause_Returned: "unpause e st = Returned u st' \<longleftrightarrow> owner st = msg_sender e \<and> st' = st"
  by (auto simp: unpause_def modifier_defs)

lemma transferOwnership_Returned:
  "transferOwnership e newOwner st = Returned u st' \<longleftrightarrow>
     owner st = msg_sender e \<and> newOwner \<noteq> 0 \<and> st' = st\<lparr>owner := newOwner\<rparr>"
  by (auto simp: transferOwnership_def modifier_defs)

lemma renounceOwnership_Returned:
  "renounceOwnership e st = Returned u st' \<longleftrightarrow> owner st = msg_sender e \<and> st' = st\<lparr>owner := 0\<rparr>"
  by (auto simp: renounceOwnership_def modifier_defs)


section \<open>Counters and word order\<close>

lemma word_lt_succ: "(x::'a::len word) \<noteq> - 1 \<Longrightarrow> x < x + 1"
  using inc_less_eq_self_iff_eq [of x] by (simp add: not_le)

lemma word_less_succ_iff: "(x::'a::len word) \<noteq> - 1 \<Longrightarrow> y < x + 1 \<longleftrightarrow> y < x \<or> y = x"
  using less_inc_imp_less_eq [of y x] word_lt_succ [of x] by (auto simp: word_le_less_eq)

lemma word_succ_le_iff: "(x::'a::len word) \<noteq> - 1 \<Longrightarrow> x + 1 \<le> y \<longleftrightarrow> x < y"
  by (simp add: inc_less_eq_iff)

lemma word_succ_neq_0: "(x::'a::len word) \<noteq> - 1 \<Longrightarrow> x + 1 \<noteq> 0"
  using max_word_wrap [of x] by blast

section \<open>The storage after a settlement\<close>

lemma completeTransaction_fields:
  assumes "completeTransaction acc e tid v st = Returned u st'"
  shows "participants st' = participants st"
    and "products st' = products st"
    and "batches st' = (batches st)(batchId_T (transactions st tid) :=
           (batches st (batchId_T (transactions st tid)))
             \<lparr>currentOwner := to_T (transactions st tid), timestamp_B := block_timestamp e,
              ownershipHistory := ownershipHistory (batches st (batchId_T (transactions st tid)))
                 @ [to_T (transactions st tid)],
              locationHistory := locationHistory (batches st (batchId_T (transactions st tid)))
                 @ [location_B (batches st (batchId_T (transactions st tid)))],
              stageTimestamps := stageTimestamps (batches st (batchId_T (transactions st tid)))
                 @ [block_timestamp e]\<rparr>)"
    and "transactions st' = (transactions st)(tid := (transactions st tid)\<lparr>completed := True\<rparr>)"
    and "qrCodeToBatch st' = qrCodeToBatch st"
    and "batchEnvironmentData st' = batchEnvironmentData st"
    and "nextProductId st' = nextProductId st"
    and "nextBatchId st' = nextBatchId st"
    and "nextTransactionId st' = nextTransactionId st"
    and "owner st' = owner st"
    and "entered st' = False"
proof -
  from completeTransaction_Returned [OF assms]
  have eq: "st' = (completeTransaction_effects e tid st)
              \<lparr>entered := False, contractBalance := contractBalance st', paidOut := paidOut st'\<rparr>"
    by simp
  show "participants st' = participants st"
    by (subst eq) (simp add: completeTransaction_effects_def Let_def)
  show "products st' = products st"
    by (subst eq) (simp add: completeTransaction_effects_def Let_def)
  show "batches st' = (batches st)(batchId_T (transactions st tid) :=
           (batches st (batchId_T (transactions st tid)))
             \<lparr>currentOwner := to_T (transactions st tid), timestamp_B := block_timestamp e,
              ownershipHistory := ownershipHistory (batches st (batchId_T (transactions st tid)))
                 @ [to_T (transactions st tid)],
              locationHistory := locationHistory (batches st (batchId_T (transactions st tid)))
                 @ [location_B (batches st (batchId_T (transactions st tid)))],
              stageTimestamps := stageTimestamps (batches st (batchId_T (transactions st tid)))
                 @ [block_timestamp e]\<rparr>)"
    by (subst eq) (simp add: completeTransaction_effects_def Let_def)
  show "transactions st' = (transactions st)(tid := (transactions st tid)\<lparr>completed := True\<rparr>)"
    by (subst eq) (simp add: completeTransaction_effects_def Let_def)
  show "qrCodeToBatch st' = qrCodeToBatch st"
    by (subst eq) (simp add: completeTransaction_effects_def Let_def)
  show "batchEnvironmentData st' = batchEnvironmentData st"
    by (subst eq) (simp add: completeTransaction_effects_def Let_def)
  show "nextProductId st' = nextProductId st"
    by (subst eq) (simp add: completeTransaction_effects_def Let_def)
  show "nextBatchId st' = nextBatchId st"
    by (subst eq) (simp add: completeTransaction_effects_def Let_def)
  show "nextTransactionId st' = nextTransactionId st"
    by (subst eq) (simp add: completeTransaction_effects_def Let_def)
  show "owner st' = owner st"
    by (subst eq) (simp add: completeTransaction_effects_def Let_def)
  show "entered st' = False"
    by (subst eq) simp
qed

lemmas Returned_simps =
  returns_nothing_Returned returns_uint256_Returned
  registerParticipant_Returned createProduct_Returned createBatch_Returned
  recordEnvironmentData_Returned transferBatchOwnership_Returned updateQuality_Returned
  addBatchNote_Returned createTransaction_Returned updateParticipantReputation_Returned
  deactivateParticipant_Returned pause_Returned unpause_Returned transferOwnership_Returned
  renounceOwnership_Returned

text \<open>
  A call that returns changes the storage in one of a few ways; the fields a property
  reads decide which calls matter to it. These lemmas say, field by field, which calls
  leave a field alone.
\<close>

lemma exec_products:
  assumes "exec acc e c st = Returned r st'"
  shows "products st' = products st
         \<or> (\<exists>pname var qty hdate organic certs. c = CreateProduct pname var qty hdate organic certs)
         \<or> (\<exists>b q reason. c = UpdateQuality b q reason)"
  using assms
  by (cases c) (auto simp: Returned_simps dest: completeTransaction_fields(2))

lemma exec_nextProductId:
  assumes "exec acc e c st = Returned r st'"
  shows "nextProductId st' = nextProductId st
         \<or> (\<exists>pname var qty hdate organic certs. c = CreateProduct pname var qty hdate organic certs)"
  using assms
  by (cases c) (auto simp: Returned_simps dest: completeTransaction_fields(7))

lemma exec_nextBatchId:
  assumes "exec acc e c st = Returned r st'"
  shows "nextBatchId st' = nextBatchId st \<or> (\<exists>pid qr loc. c = CreateBatch pid qr loc)"
  using assms
  by (cases c) (auto simp: Returned_simps dest: completeTransaction_fields(8))

lemma exec_productId_B:
  assumes "exec acc e c st = Returned r st'"
  shows "(\<forall>b. productId_B (batches st' b) = productId_B (batches st b))
         \<or> (\<exists>pid qr loc. c = CreateBatch pid qr loc)"
  using assms
  by (cases c) (auto simp: Returned_simps dest: completeTransaction_fields(3))

lemma exec_transactions:
  assumes "exec acc e c st = Returned r st'"
  shows "transactions st' = transactions st
         \<or> (\<exists>b buyer prc ttype. c = CreateTransaction b buyer prc ttype)
         \<or> (\<exists>tid v. c = CompleteTransaction tid v)"
  using assms
  by (cases c) (auto simp: Returned_simps)

lemma exec_nextTransactionId:
  assumes "exec acc e c st = Returned r st'"
  shows "nextTransactionId st' = nextTransactionId st
         \<or> (\<exists>b buyer prc ttype. c = CreateTransaction b buyer prc ttype)"
  using assms
  by (cases c) (auto simp: Returned_simps dest: completeTransaction_fields(9))

lemma exec_entered:
  assumes "exec acc e c st = Returned r st'" and "\<not> entered st"
  shows "\<not> entered st'"
  using assms
  by (cases c) (auto simp: Returned_simps dest: completeTransaction_fields(11))

lemma exec_qrCodeToBatch:
  assumes "exec acc e c st = Returned r st'"
  shows "qrCodeToBatch st' = qrCodeToBatch st \<or> (\<exists>pid qr loc. c = CreateBatch pid qr loc)"
  using assms
  by (cases c) (auto simp: Returned_simps dest: completeTransaction_fields(5))

lemma exec_participants:
  assumes "exec acc e c st = Returned r st'"
  shows "participants st' = participants st
         \<or> (\<exists>nm loc ro. c = RegisterParticipant nm loc ro)
         \<or> (\<exists>p v. c = UpdateParticipantReputation p v)
         \<or> (\<exists>p. c = DeactivateParticipant p)"
  using assms
  by (cases c) (auto simp: Returned_simps dest: completeTransaction_fields(1))

lemma transact_cases:
  obtains (Reverted) "transact acc e c st = st"
  | (Returned) r where "exec acc e c st = Returned r (transact acc e c st)"
  by (cases "exec acc e c st") (auto simp: transact_def)

lemma run_invariant:
  assumes "\<And>e c st. P st \<Longrightarrow> P (transact acc e c st)" and "P st"
  shows "P (run acc cs st)"
  using assms(2)
proof (induction cs arbitrary: st)
  case Nil
  then show ?case by simp
next
  case (Cons x cs)
  obtain e c where x: "x = (e, c)" by (cases x)
  have "P (transact acc e c st)" by (rule assms(1) [OF Cons.prems])
  then show ?case using Cons.IH by (simp add: x)
qed

lemma run_invariant_nonzero:
  assumes "\<And>e c st. P st \<Longrightarrow> msg_sender e \<noteq> 0 \<Longrightarrow> P (transact acc e c st)"
    and "P st" and "senders_nonzero cs"
  shows "P (run acc cs st)"
  using assms(2,3)
proof (induction cs arbitrary: st)
  case Nil
  then show ?case by simp
next
  case (Cons x cs)
  obtain e c where x: "x = (e, c)" by (cases x)
  have "msg_sender e \<noteq> 0" and rest: "senders_nonzero cs"
    using Cons.prems(2) by (simp_all add: senders_nonzero_def x)
  then have "P (transact acc e c st)" using assms(1) Cons.prems(1) by blast
  then show ?case using Cons.IH rest by (simp add: x)
qed

section \<open>The histories of a batch\<close>

lemma exec_histories:
  assumes "exec acc e c st = Returned r st'"
  shows "(\<forall>b. ownershipHistory (batches st' b) = ownershipHistory (batches st b) \<and>
              locationHistory (batches st' b) = locationHistory (batches st b) \<and>
              stageTimestamps (batches st' b) = stageTimestamps (batches st b))
         \<or> (\<exists>pid qr loc. c = CreateBatch pid qr loc)
         \<or> (\<exists>b newOwner newStage newLocation. c = TransferBatchOwnership b newOwner newStage newLocation)
         \<or> (\<exists>tid v. c = CompleteTransaction tid v)"
  using assms by (cases c) (auto simp: Returned_simps)

lemma histories_aligned_exec:
  assumes "histories_aligned st" and "exec acc e c st = Returned r st'"
  shows "histories_aligned st'"
proof -
  consider
      (CB) pid qr loc where "c = CreateBatch pid qr loc"
    | (TB) b newOwner newStage newLocation where
        "c = TransferBatchOwnership b newOwner newStage newLocation"
    | (CT) tid v where "c = CompleteTransaction tid v"
    | (other) "nextBatchId st' = nextBatchId st"
        "\<forall>b. ownershipHistory (batches st' b) = ownershipHistory (batches st b) \<and>
             locationHistory (batches st' b) = locationHistory (batches st b) \<and>
             stageTimestamps (batches st' b) = stageTimestamps (batches st b)"
    using exec_histories [OF assms(2)] exec_nextBatchId [OF assms(2)] by blast
  then show ?thesis
  proof cases
    case CB
    then show ?thesis
      using assms unfolding histories_aligned_def
      by (auto simp: Returned_simps word_less_succ_iff)
  next
    case TB
    then show ?thesis
      using assms unfolding histories_aligned_def
      by (auto simp: Returned_simps)
  next
    case CT
    then have ct: "completeTransaction acc e tid v st = Returned () st'"
      using assms(2) by (simp add: returns_nothing_Returned)
    show ?thesis
      using assms(1) unfolding histories_aligned_def
      by (auto simp: completeTransaction_fields [OF ct])
  next
    case other
    then show ?thesis
      using assms(1) unfolding histories_aligned_def by auto
  qed
qed

lemma histories_aligned_transact:
  "histories_aligned st \<Longrightarrow> histories_aligned (transact acc e c st)"
  by (rule transact_cases [of acc e c st]) (auto intro: histories_aligned_exec)

lemma histories_aligned_constructor: "histories_aligned (constructor d)"
  by (auto simp: histories_aligned_def constructor_def zero_BatchTracking_def)

lemma histories_aligned_run: "histories_aligned (run acc cs (constructor d))"
  by (rule run_invariant [where P = histories_aligned])
     (simp_all add: histories_aligned_transact histories_aligned_constructor)

section \<open>Unassigned product slots\<close>

lemma products_assigned_exec:
  assumes "products_assigned st" and "msg_sender e \<noteq> 0" and "exec acc e c st = Returned r st'"
  shows "products_assigned st'"
proof -
  have inv: "nextProductId st \<noteq> 0"
    "\<And>p. p = 0 \<or> nextProductId st \<le> p \<Longrightarrow> products st p = zero_Product"
    "\<And>b. 0 < b \<Longrightarrow> b < nextBatchId st \<Longrightarrow>
          0 < productId_B (batches st b) \<and> productId_B (batches st b) < nextProductId st"
    using assms(1) unfolding products_assigned_def by auto
  consider
      (CP) pname var qty hdate organic certs where
        "c = CreateProduct pname var qty hdate organic certs"
    | (CB) pid qr loc where "c = CreateBatch pid qr loc"
    | (UQ) b q reason where "c = UpdateQuality b q reason"
    | (other) "products st' = products st" "nextProductId st' = nextProductId st"
        "nextBatchId st' = nextBatchId st"
        "\<forall>b. productId_B (batches st' b) = productId_B (batches st b)"
    using exec_products [OF assms(3)] exec_nextProductId [OF assms(3)]
      exec_nextBatchId [OF assms(3)] exec_productId_B [OF assms(3)] by blast
  then show ?thesis
  proof cases
    case CP
    then have f: "nextProductId st \<noteq> - 1" "nextProductId st' = nextProductId st + 1"
      "nextBatchId st' = nextBatchId st" "batches st' = batches st"
      "\<And>p. p \<noteq> nextProductId st \<Longrightarrow> products st' p = products st p"
      using assms(3) by (auto simp: Returned_simps)
    have lt: "nextProductId st < nextProductId st + 1" by (rule word_lt_succ [OF f(1)])
    show ?thesis
      unfolding products_assigned_def
    proof (intro conjI allI impI)
      show "nextProductId st' \<noteq> 0" by (simp add: f word_succ_neq_0)
    next
      fix p assume "p = 0 \<or> nextProductId st' \<le> p"
      then have "p \<noteq> nextProductId st \<and> (p = 0 \<or> nextProductId st \<le> p)"
        using inv(1) f(1) lt by (auto simp: f(2))
      then show "products st' p = zero_Product" using inv(2) f(5) by simp
    next
      fix b assume "0 < b \<and> b < nextBatchId st'"
      then have "0 < productId_B (batches st b) \<and> productId_B (batches st b) < nextProductId st"
        using inv(3) by (simp add: f)
      then show "0 < productId_B (batches st' b)"
        and "productId_B (batches st' b) < nextProductId st'"
        using lt by (auto simp: f)
    qed
  next
    case CB
    then have cb: "createBatch e pid qr loc st = Returned (nextBatchId st) st'"
      using assms(3) by (auto simp: returns_uint256_Returned createBatch_Returned)
    have z: "farmer zero_Product = 0" by (simp add: zero_Product_def)
    have "farmer (products st pid) = msg_sender e"
      using cb by (simp add: createBatch_Returned)
    then have "products st pid \<noteq> zero_Product" using assms(2) z by auto
    then have "\<not> (pid = 0 \<or> nextProductId st \<le> pid)" using inv(2) by blast
    then have r: "0 < pid" "pid < nextProductId st" by (simp_all add: word_neq_0_conv not_le)
    have f: "nextProductId st' = nextProductId st" "products st' = products st"
      "nextBatchId st' = nextBatchId st + 1" "nextBatchId st \<noteq> - 1"
      "\<And>b. productId_B (batches st' b) =
            (if b = nextBatchId st then pid else productId_B (batches st b))"
      using cb by (simp_all add: createBatch_Returned)
    show ?thesis
      unfolding products_assigned_def
    proof (intro conjI allI impI)
      show "nextProductId st' \<noteq> 0" by (simp add: f inv)
    next
      fix p assume "p = 0 \<or> nextProductId st' \<le> p"
      then show "products st' p = zero_Product" using inv(2) by (simp add: f)
    next
      fix b assume "0 < b \<and> b < nextBatchId st'"
      then have "b = nextBatchId st \<or> (0 < b \<and> b < nextBatchId st)"
        by (auto simp: f word_less_succ_iff)
      then show "0 < productId_B (batches st' b)"
        and "productId_B (batches st' b) < nextProductId st'"
        using r inv(3) by (auto simp: f)
    qed
  next
    case UQ
    then have f: "0 < b" "b < nextBatchId st" "nextProductId st' = nextProductId st"
      "nextBatchId st' = nextBatchId st"
      "\<And>b'. productId_B (batches st' b') = productId_B (batches st b')"
      "\<And>p. p \<noteq> productId_B (batches st b) \<Longrightarrow> products st' p = products st p"
      using assms(3) by (auto simp: Returned_simps)
    have r: "0 < productId_B (batches st b)" "productId_B (batches st b) < nextProductId st"
      using inv(3) f(1,2) by simp_all
    show ?thesis
      unfolding products_assigned_def
    proof (intro conjI allI impI)
      show "nextProductId st' \<noteq> 0" by (simp add: f inv)
    next
      fix p assume h: "p = 0 \<or> nextProductId st' \<le> p"
      then have "p \<noteq> productId_B (batches st b)" using r by (auto simp: f)
      then show "products st' p = zero_Product" using inv(2) h by (simp add: f)
    next
      fix b' assume "0 < b' \<and> b' < nextBatchId st'"
      then show "0 < productId_B (batches st' b')"
        and "productId_B (batches st' b') < nextProductId st'"
        using inv(3) by (simp_all add: f)
    qed
  next
    case other
    then show ?thesis
      using assms(1) unfolding products_assigned_def by simp
  qed
qed

lemma products_assigned_transact:
  "products_assigned st \<Longrightarrow> msg_sender e \<noteq> 0 \<Longrightarrow> products_assigned (transact acc e c st)"
  by (rule transact_cases [of acc e c st]) (auto intro: products_assigned_exec)

lemma products_assigned_constructor: "products_assigned (constructor d)"
  by (simp add: products_assigned_def constructor_def)

lemma products_assigned_run:
  "senders_nonzero cs \<Longrightarrow> products_assigned (run acc cs (constructor d))"
  by (rule run_invariant_nonzero [where P = products_assigned])
     (simp_all add: products_assigned_transact products_assigned_constructor)

section \<open>Unassigned transaction slots\<close>

lemma transactions_assigned_exec:
  assumes "transactions_assigned st" and "msg_sender e \<noteq> 0"
    and "exec acc e c st = Returned r st'"
  shows "transactions_assigned st'"
proof -
  have inv: "\<not> entered st" "nextTransactionId st \<noteq> 0"
    "\<And>t. t = 0 \<or> nextTransactionId st \<le> t \<Longrightarrow> transactions st t = zero_Transaction"
    using assms(1) unfolding transactions_assigned_def by auto
  have en: "\<not> entered st'" by (rule exec_entered [OF assms(3) inv(1)])
  consider
      (CR) b buyer prc ttype where "c = CreateTransaction b buyer prc ttype"
    | (CT) tid v where "c = CompleteTransaction tid v"
    | (other) "transactions st' = transactions st" "nextTransactionId st' = nextTransactionId st"
    using exec_transactions [OF assms(3)] exec_nextTransactionId [OF assms(3)] by blast
  then show ?thesis
  proof cases
    case CR
    then have f: "nextTransactionId st \<noteq> - 1" "nextTransactionId st' = nextTransactionId st + 1"
      "\<And>t. t \<noteq> nextTransactionId st \<Longrightarrow> transactions st' t = transactions st t"
      using assms(3) by (auto simp: Returned_simps)
    have lt: "nextTransactionId st < nextTransactionId st + 1" by (rule word_lt_succ [OF f(1)])
    show ?thesis
      unfolding transactions_assigned_def
    proof (intro conjI allI impI)
      show "\<not> entered st'" by (rule en)
    next
      show "nextTransactionId st' \<noteq> 0" by (simp add: f word_succ_neq_0)
    next
      fix t assume "t = 0 \<or> nextTransactionId st' \<le> t"
      then have "t \<noteq> nextTransactionId st \<and> (t = 0 \<or> nextTransactionId st \<le> t)"
        using inv(2) f(1) lt by (auto simp: f(2))
      then show "transactions st' t = zero_Transaction" using inv(3) f(3) by simp
    qed
  next
    case CT
    then have ct: "completeTransaction acc e tid v st = Returned () st'"
      using assms(3) by (simp add: returns_nothing_Returned)
    have z: "to_T zero_Transaction = 0" by (simp add: zero_Transaction_def)
    have "to_T (transactions st tid) \<noteq> 0"
      using completeTransaction_Returned [OF ct] assms(2) by simp
    then have "transactions st tid \<noteq> zero_Transaction" using z by auto
    then have ne: "\<not> (tid = 0 \<or> nextTransactionId st \<le> tid)" using inv(3) by blast
    show ?thesis
      unfolding transactions_assigned_def
    proof (intro conjI allI impI)
      show "\<not> entered st'" by (rule en)
    next
      show "nextTransactionId st' \<noteq> 0" by (simp add: completeTransaction_fields [OF ct] inv)
    next
      fix t assume h: "t = 0 \<or> nextTransactionId st' \<le> t"
      then have "t \<noteq> tid" using ne by (auto simp: completeTransaction_fields [OF ct])
      then show "transactions st' t = zero_Transaction"
        using inv(3) h by (simp add: completeTransaction_fields [OF ct])
    qed
  next
    case other
    then show ?thesis
      using assms(1) en unfolding transactions_assigned_def by simp
  qed
qed

lemma transactions_assigned_transact:
  "transactions_assigned st \<Longrightarrow> msg_sender e \<noteq> 0 \<Longrightarrow>
     transactions_assigned (transact acc e c st)"
  by (rule transact_cases [of acc e c st]) (auto intro: transactions_assigned_exec)

lemma transactions_assigned_constructor: "transactions_assigned (constructor d)"
  by (simp add: transactions_assigned_def constructor_def)

lemma transactions_assigned_run:
  "senders_nonzero cs \<Longrightarrow> transactions_assigned (run acc cs (constructor d))"
  by (rule run_invariant_nonzero [where P = transactions_assigned])
     (simp_all add: transactions_assigned_transact transactions_assigned_constructor)

section \<open>The example ledger\<close>

lemma demo_batch_fields:
  "owner demo_batch = 9" "nextProductId demo_batch = 2" "nextBatchId demo_batch = 2"
  "isActive (participants demo_batch 1)" "participants demo_batch 5 = zero_Participant"
  "products demo_batch 7 = zero_Product"
  by (simp_all add: demo_defs)

lemma demo_pending_fields:
  "nextTransactionId demo_pending = 2" "to_T (transactions demo_pending 1) = 2"
  "from_T (transactions demo_pending 1) = 1" "price (transactions demo_pending 1) = 100"
  "completed (transactions demo_pending 1) = False" "batchId_T (transactions demo_pending 1) = 1"
  "entered demo_pending = False" "currentOwner (batches demo_pending 1) = 1"
  by (simp_all add: demo_defs)

lemma demo_settled_fields:
  "nextTransactionId demo_settled = 2" "to_T (transactions demo_settled 1) = 2"
  "completed (transactions demo_settled 1) = True" "entered demo_settled = False"
  "currentOwner (batches demo_settled 1) = 2" "paidOut demo_settled 1 = 100"
  "paidOut demo_settled 2 = 50" "contractBalance demo_settled = 0"
  "ownershipHistory (batches demo_settled 1) = [1, 2]"
  "locationHistory (batches demo_settled 1) = [''Warehouse'', ''Warehouse'']"
  "stageTimestamps (batches demo_settled 1) = [1003, 1005]"
  "currentStage (batches demo_settled 1) = Harvested"
  by (simp_all add: demo_defs)

lemma demo_senders:
  "senders_nonzero demo_calls" "senders_nonzero demo_pending_calls"
  "senders_nonzero demo_settled_calls"
  by (simp_all add: senders_nonzero_def demo_product_calls_def demo_calls_def
        demo_pending_calls_def demo_settled_calls_def sent_by_def)

lemma demo_processed_fields:
  "nextBatchId demo_processed = 2" "currentStage (batches demo_processed 1) = Processed"
  "currentOwner (batches demo_processed 1) = 2" "isActive (participants demo_processed 2)"
  by (simp_all add: demo_defs)

lemma demo_batch_batch:
  "currentStage (batches demo_batch 1) = Harvested" "currentOwner (batches demo_batch 1) = 1"
  "isActive (participants demo_batch 2)"
  by (simp_all add: demo_defs)

lemma demo_settled_unfold:
  "demo_settled = transact accept_all (sent_by 2 1005) (CompleteTransaction 1 150) demo_pending"
  by (simp add: demo_settled_def demo_settled_calls_def demo_pending_def run_append)

lemma demo_pending_balance: "contractBalance demo_pending = 0" "batches demo_pending 1 = batches demo_batch 1"
  by (simp_all add: demo_defs)

section \<open>Registration after deactivation\<close>

text \<open>
  Claim C10. Registration only rejects a principal whose record is currently active:
  with a non-empty name and location, \<^verbatim>\<open>registerParticipant\<close> fails exactly when the
  sender is active, and then with \<open>AlreadyRegistered\<close>. After the owner has deactivated
  a principal, a registration by that principal succeeds and overwrites the stored name,
  location and role, with the participant active again and the reputation back at 100.
\<close>

theorem C10_reregistration_after_deactivation:
  assumes "nm \<noteq> []" and "loc \<noteq> []" and "msg_sender adm = owner st"
  shows "(failure (exec acc e (RegisterParticipant nm loc r) st) \<noteq> None
            \<longleftrightarrow> isActive (participants st (msg_sender e))) \<and>
         (failure (exec acc e (RegisterParticipant nm loc r) st) \<noteq> None
            \<longrightarrow> failure (exec acc e (RegisterParticipant nm loc r) st) = Some AlreadyRegistered) \<and>
         failure (exec acc adm (DeactivateParticipant (msg_sender e)) st) = None \<and>
         (let st1 = transact acc adm (DeactivateParticipant (msg_sender e)) st;
              st2 = transact acc e (RegisterParticipant nm loc r) st1
          in failure (exec acc e (RegisterParticipant nm loc r) st1) = None \<and>
             participants st2 (msg_sender e) =
               \<lparr>name = nm, location_P = loc, role = r, isActive = True, reputation = 100\<rparr>)"
  using assms
  by (simp add: transact_def registerParticipant_def deactivateParticipant_def onlyOwner_def)

text \<open>
  On the example ledger: account 1 is registered as ``Farm A'', so registering again
  fails; after the owner (account 9) deactivates it, account 1 registers as ``Farm B''.
\<close>

theorem C10_reregistration_witness:
  "''Farm B'' \<noteq> [] \<and> ''Hill'' \<noteq> [] \<and> msg_sender (sent_by 9 2000) = owner demo_batch \<and>
   isActive (participants demo_batch 1) \<and>
   failure (exec accept_all (sent_by 1 2001) (RegisterParticipant ''Farm B'' ''Hill'' Retailer) demo_batch)
     = Some AlreadyRegistered \<and>
   participants
     (transact accept_all (sent_by 1 2001) (RegisterParticipant ''Farm B'' ''Hill'' Retailer)
        (transact accept_all (sent_by 9 2000) (DeactivateParticipant 1) demo_batch)) 1 =
     \<lparr>name = ''Farm B'', location_P = ''Hill'', role = Retailer, isActive = True, reputation = 100\<rparr>"
proof -
  have h: "msg_sender (sent_by 9 2000) = owner demo_batch"
    by (simp add: demo_batch_fields) (simp add: sent_by_def)
  have s: "msg_sender (sent_by 1 2001) = 1" by (simp add: sent_by_def)
  from C10_reregistration_after_deactivation
         [of "''Farm B''" "''Hill''" "sent_by 9 2000" demo_batch accept_all "sent_by 1 2001" Retailer]
  show ?thesis using h by (simp add: s demo_batch_fields Let_def)
qed

section \<open>The three histories of a batch\<close>

text \<open>
  Claim C2. After any sequence of calls on the deployed contract (whoever sends them,
  whether they return or revert), the owner, location and time-stamp histories of every
  batch slot have the same length, and for a batch that has been created (an id from 1
  up to, not including, \<open>nextBatchId\<close>) that length is at least 1. The histories a
  caller reads through \<^verbatim>\<open>getBatchHistory\<close> are these lists.
\<close>

theorem C2_history_lengths:
  "length (ownershipHistory (batches (run acc cs (constructor d)) b)) =
     length (locationHistory (batches (run acc cs (constructor d)) b)) \<and>
   length (locationHistory (batches (run acc cs (constructor d)) b)) =
     length (stageTimestamps (batches (run acc cs (constructor d)) b)) \<and>
   (0 < b \<and> b < nextBatchId (run acc cs (constructor d)) \<longrightarrow>
      1 \<le> length (ownershipHistory (batches (run acc cs (constructor d)) b))) \<and>
   (\<forall>os ls ts. getBatchHistory (run acc cs (constructor d)) b = Inr (os, ls, ts) \<longrightarrow>
      length os = length ls \<and> length ls = length ts \<and> 1 \<le> length os)"
proof -
  have "histories_aligned (run acc cs (constructor d))" by (rule histories_aligned_run)
  then show ?thesis
    unfolding histories_aligned_def getBatchHistory_def validBatch_view_def
    by (auto split: if_splits)
qed

text \<open>
  On the example ledger after the settlement, batch 1 has two entries in each history.
\<close>

theorem C2_history_lengths_witness:
  "0 < (1::uint256) \<and> (1::uint256) < nextBatchId (run accept_all demo_settled_calls (constructor 9)) \<and>
   getBatchHistory (run accept_all demo_settled_calls (constructor 9)) 1 =
     Inr ([1, 2], [''Warehouse'', ''Warehouse''], [1003, 1005]) \<and>
   1 \<le> length (ownershipHistory (batches (run accept_all demo_settled_calls (constructor 9)) 1)) \<and>
   length (ownershipHistory (batches (run accept_all demo_settled_calls (constructor 9)) 1)) =
     length (locationHistory (batches (run accept_all demo_settled_calls (constructor 9)) 1)) \<and>
   length (locationHistory (batches (run accept_all demo_settled_calls (constructor 9)) 1)) =
     length (stageTimestamps (batches (run accept_all demo_settled_calls (constructor 9)) 1))"
proof -
  have n: "nextBatchId demo_settled = 2" by (simp add: demo_defs)
  have h: "getBatchHistory demo_settled 1 = Inr ([1, 2], [''Warehouse'', ''Warehouse''], [1003, 1005])"
    by (simp add: getBatchHistory_def validBatch_view_def n demo_settled_fields)
  from C2_history_lengths [of accept_all demo_settled_calls 9 1]
  show ?thesis using h n by (simp add: demo_settled_def [symmetric])
qed

section \<open>Reading a product that was never created\<close>

text \<open>
  Claim C6, as the specification states it: \<^verbatim>\<open>getProduct\<close> fails with NotFound for
  every product id that was never assigned. The contract's \<^verbatim>\<open>getProductInfo\<close> has
  no check at all: on the example ledger, where the only product is number 1, it answers
  for id 7 with the zero product.
\<close>

theorem C6_getProductInfo_answers_unassigned:
  "nextProductId demo_batch \<le> 7 \<and>
   getProductInfo demo_batch 7 = Inr ([], [], 0, 0, Excellent, False, [])"
  by (simp add: getProductInfo_def demo_batch_fields zero_Product_def)

text \<open>
  Claim C6, amended. \<^verbatim>\<open>getProductInfo\<close> never fails. After any sequence of calls
  (none sent from the zero address), for every product id that was never assigned, that
  is 0 or an id from \<open>nextProductId\<close> on, it answers with the zero product: empty name
  and variety, quantity 0, the zero address as farmer, quality Excellent, not organic, no
  certifications.
\<close>

theorem C6_unassigned_product_reads_zero:
  assumes "senders_nonzero cs" and "pid = 0 \<or> nextProductId (run acc cs (constructor d)) \<le> pid"
  shows "getProductInfo (run acc cs (constructor d)) pid = Inr ([], [], 0, 0, Excellent, False, []) \<and>
         getProductInfo st' pid' \<noteq> Inl err"
proof -
  have "products_assigned (run acc cs (constructor d))"
    by (rule products_assigned_run [OF assms(1)])
  then have "products (run acc cs (constructor d)) pid = zero_Product"
    using assms(2) unfolding products_assigned_def by blast
  then show ?thesis
    by (simp add: getProductInfo_def zero_Product_def Let_def)
qed

text \<open>On the example ledger the ids 0 and 2 are unassigned.\<close>

theorem C6_unassigned_product_witness:
  "senders_nonzero demo_calls \<and> nextProductId (run accept_all demo_calls (constructor 9)) = 2 \<and>
   getProductInfo (run accept_all demo_calls (constructor 9)) 0 =
     Inr ([], [], 0, 0, Excellent, False, []) \<and>
   getProductInfo (run accept_all demo_calls (constructor 9)) 2 =
     Inr ([], [], 0, 0, Excellent, False, [])"
proof -
  have n: "nextProductId (run accept_all demo_calls (constructor 9)) = 2"
    by (simp add: demo_batch_def [symmetric] demo_batch_fields)
  from C6_unassigned_product_reads_zero [OF demo_senders(1), of 0 accept_all 9]
       C6_unassigned_product_reads_zero [OF demo_senders(1), of 2 accept_all 9]
  show ?thesis using n demo_senders(1) by simp
qed

section \<open>Deactivating a principal that never registered\<close>

lemma participants_zero_transact:
  assumes "participants st p = zero_Participant"
    and "\<not> (msg_sender e = p \<and> is_RegisterParticipant c)"
  shows "participants (transact acc e c st) p = zero_Participant"
proof (rule transact_cases [of acc e c st])
  assume "transact acc e c st = st"
  then show ?thesis using assms(1) by simp
next
  fix r assume ex: "exec acc e c st = Returned r (transact acc e c st)"
  have na: "\<not> isActive (participants st p)" by (simp add: assms(1) zero_Participant_def)
  consider
      (RP) nm loc ro where "c = RegisterParticipant nm loc ro"
    | (UR) p' v where "c = UpdateParticipantReputation p' v"
    | (DP) p' where "c = DeactivateParticipant p'"
    | (other) "participants (transact acc e c st) = participants st"
    using exec_participants [OF ex] by blast
  then show ?thesis
  proof cases
    case RP
    then have "msg_sender e \<noteq> p" using assms(2) by simp
    then show ?thesis using ex assms(1) by (auto simp: RP Returned_simps)
  next
    case UR
    then show ?thesis using ex assms(1) na by (auto simp: Returned_simps)
  next
    case DP
    then show ?thesis using ex assms(1) by (auto simp: Returned_simps zero_Participant_def)
  next
    case other
    then show ?thesis using assms(1) by simp
  qed
qed

lemma participants_zero_run:
  assumes "never_registers p cs" and "participants st p = zero_Participant"
  shows "participants (run acc cs st) p = zero_Participant"
  using assms
proof (induction cs arbitrary: st)
  case Nil
  then show ?case by simp
next
  case (Cons x cs)
  obtain e c where x: "x = (e, c)" by (cases x)
  have "\<not> (msg_sender e = p \<and> is_RegisterParticipant c)" and rest: "never_registers p cs"
    using Cons.prems(1) by (simp_all add: never_registers_def x)
  then have "participants (transact acc e c st) p = zero_Participant"
    using participants_zero_transact Cons.prems(2) by blast
  then show ?case using Cons.IH rest by (simp add: x)
qed

text \<open>
  Claim C8, as the specification states it: for a principal that has never registered,
  \<^verbatim>\<open>deactivate\<close> fails with NotFound. \<^verbatim>\<open>deactivateParticipant\<close> checks only that
  the owner calls: on the example ledger account 5 never registered, and the owner's
  call to deactivate it returns.
\<close>

theorem C8_deactivate_unregistered_returns:
  "never_registers 5 demo_calls \<and>
   failure (exec accept_all (sent_by 9 2000) (DeactivateParticipant 5) demo_batch) = None"
  by (simp add: never_registers_def demo_product_calls_def demo_calls_def sent_by_def
        deactivateParticipant_def onlyOwner_def demo_batch_fields)

text \<open>
  Claim C8, amended. For every principal that has never registered (it sent no
  \<^verbatim>\<open>registerParticipant\<close> in the whole history of the contract), the owner's
  \<^verbatim>\<open>deactivateParticipant\<close> returns, without a value, and leaves the storage exactly
  as it was.
\<close>

theorem C8_deactivate_never_registered:
  assumes "never_registers p cs" and "msg_sender adm = owner (run acc cs (constructor d))"
  shows "exec acc' adm (DeactivateParticipant p) (run acc cs (constructor d)) =
           Returned None (run acc cs (constructor d))"
proof -
  have "participants (run acc cs (constructor d)) p = zero_Participant"
    by (rule participants_zero_run [OF assms(1)]) (simp add: constructor_def)
  then have "(participants (run acc cs (constructor d)))
               (p := (participants (run acc cs (constructor d)) p)\<lparr>isActive := False\<rparr>) =
             participants (run acc cs (constructor d))"
    by (simp add: zero_Participant_def fun_upd_idem)
  then show ?thesis
    using assms(2) by (simp add: deactivateParticipant_def onlyOwner_def)
qed

text \<open>On the example ledger with the pending sale, account 3 never registered.\<close>

theorem C8_deactivate_never_registered_witness:
  "never_registers 3 demo_pending_calls \<and>
   msg_sender (sent_by 9 2000) = owner (run accept_all demo_pending_calls (constructor 9)) \<and>
   exec accept_all (sent_by 9 2000) (DeactivateParticipant 3)
     (run accept_all demo_pending_calls (constructor 9)) =
   Returned None (run accept_all demo_pending_calls (constructor 9))"
proof -
  have n: "never_registers 3 demo_pending_calls"
    by (simp add: never_registers_def demo_product_calls_def demo_calls_def
          demo_pending_calls_def sent_by_def)
  have o: "msg_sender (sent_by 9 2000) = owner (run accept_all demo_pending_calls (constructor 9))"
    by (simp add: demo_defs)
  from C8_deactivate_never_registered [OF n o, of accept_all] show ?thesis using n o by simp
qed

section \<open>The checks of a settlement\<close>

lemma completeTransaction_failure:
  assumes "\<not> entered st"
  shows "msg_sender e \<noteq> to_T (transactions st tid) \<Longrightarrow>
           failure (completeTransaction acc e tid v st) = Some NotTheBuyer"
    and "msg_sender e = to_T (transactions st tid) \<Longrightarrow> completed (transactions st tid) \<Longrightarrow>
           failure (completeTransaction acc e tid v st) = Some AlreadyCompleted"
    and "msg_sender e = to_T (transactions st tid) \<Longrightarrow> \<not> completed (transactions st tid) \<Longrightarrow>
           v < price (transactions st tid) \<Longrightarrow>
           failure (completeTransaction acc e tid v st) = Some InsufficientPayment"
  using assms by (simp_all add: completeTransaction_def nonReentrant_def)

text \<open>
  Claim C9. On the contract after any sequence of calls, a \<^verbatim>\<open>completeTransaction\<close>
  naming a transaction id that \<^verbatim>\<open>createTransaction\<close> never assigned (0, or an id from
  \<open>nextTransactionId\<close> on) is rejected and changes nothing: the slot holds the zero
  transaction, whose buyer is the zero address, and no account sends from the zero address.
  For a stored transaction the checks run in this order: a caller other than the stored
  buyer is rejected with \<open>NotTheBuyer\<close>; the buyer is rejected with \<open>AlreadyCompleted\<close>
  when the completed flag is set; and otherwise with \<open>InsufficientPayment\<close> when the
  value sent is below the price. Every rejected call leaves the storage as it was.
\<close>

theorem C9_completeTransaction_rejections:
  assumes "senders_nonzero cs" and "msg_sender e \<noteq> 0"
  shows "let st = run acc cs (constructor d);
             txn = transactions st tid;
             out = exec acc' e (CompleteTransaction tid v) st
         in ((tid = 0 \<or> nextTransactionId st \<le> tid) \<longrightarrow> failure out = Some NotTheBuyer) \<and>
            (msg_sender e \<noteq> to_T txn \<longrightarrow> failure out = Some NotTheBuyer) \<and>
            (msg_sender e = to_T txn \<and> completed txn \<longrightarrow> failure out = Some AlreadyCompleted) \<and>
            (msg_sender e = to_T txn \<and> \<not> completed txn \<and> v < price txn
               \<longrightarrow> failure out = Some InsufficientPayment) \<and>
            (failure out \<noteq> None \<longrightarrow> transact acc' e (CompleteTransaction tid v) st = st)"
proof -
  define st where "st = run acc cs (constructor d)"
  have inv: "transactions_assigned st"
    unfolding st_def by (rule transactions_assigned_run [OF assms(1)])
  then have ne: "\<not> entered st"
    and z: "\<And>t. t = 0 \<or> nextTransactionId st \<le> t \<Longrightarrow> transactions st t = zero_Transaction"
    unfolding transactions_assigned_def by auto
  have un: "msg_sender e \<noteq> to_T (transactions st tid)"
    if "tid = 0 \<or> nextTransactionId st \<le> tid"
    using z [OF that] assms(2) by (simp add: zero_Transaction_def)
  have tr: "transact acc' e (CompleteTransaction tid v) st = st"
    if "failure (exec acc' e (CompleteTransaction tid v) st) \<noteq> None"
  proof -
    from that obtain err where "failure (exec acc' e (CompleteTransaction tid v) st) = Some err"
      by auto
    then show ?thesis by (rule transact_failure)
  qed
  show ?thesis
    unfolding Let_def st_def [symmetric]
    using completeTransaction_failure [OF ne, where e = e and tid = tid and acc = acc' and v = v]
      un tr
    by auto
qed

text \<open>
  On the example ledger: transaction 5 does not exist; account 3 is not the buyer of
  transaction 1; the buyer, account 2, offers 99 for a price of 100; and after the
  settlement the buyer calls again.
\<close>

theorem C9_completeTransaction_rejections_witness:
  "senders_nonzero demo_pending_calls \<and> senders_nonzero demo_settled_calls \<and>
   msg_sender (sent_by 3 2000) \<noteq> 0 \<and> msg_sender (sent_by 2 2000) \<noteq> 0 \<and>
   nextTransactionId (run accept_all demo_pending_calls (constructor 9)) \<le> 5 \<and>
   failure (exec accept_all (sent_by 3 2000) (CompleteTransaction 5 150)
              (run accept_all demo_pending_calls (constructor 9))) = Some NotTheBuyer \<and>
   failure (exec accept_all (sent_by 3 2000) (CompleteTransaction 1 150)
              (run accept_all demo_pending_calls (constructor 9))) = Some NotTheBuyer \<and>
   failure (exec accept_all (sent_by 2 2000) (CompleteTransaction 1 99)
              (run accept_all demo_pending_calls (constructor 9))) = Some InsufficientPayment \<and>
   failure (exec accept_all (sent_by 2 2000) (CompleteTransaction 1 150)
              (run accept_all demo_settled_calls (constructor 9))) = Some AlreadyCompleted \<and>
   transact accept_all (sent_by 2 2000) (CompleteTransaction 1 150)
     (run accept_all demo_settled_calls (constructor 9)) =
   run accept_all demo_settled_calls (constructor 9)"
proof -
  have s: "msg_sender (sent_by 3 2000) = 3" "msg_sender (sent_by 2 2000) = 2"
    by (simp_all add: sent_by_def)
  have n: "msg_sender (sent_by 3 2000) \<noteq> 0" "msg_sender (sent_by 2 2000) \<noteq> 0"
    by (simp_all add: s)
  have p: "run accept_all demo_pending_calls (constructor 9) = demo_pending"
    and q: "run accept_all demo_settled_calls (constructor 9) = demo_settled"
    by (simp_all add: demo_pending_def demo_settled_def)
  from C9_completeTransaction_rejections
         [OF demo_senders(2) n(1), where acc = accept_all and d = 9 and tid = 5
            and acc' = accept_all and v = 150]
       C9_completeTransaction_rejections
         [OF demo_senders(2) n(1), where acc = accept_all and d = 9 and tid = 1
            and acc' = accept_all and v = 150]
       C9_completeTransaction_rejections
         [OF demo_senders(2) n(2), where acc = accept_all and d = 9 and tid = 1
            and acc' = accept_all and v = 99]
       C9_completeTransaction_rejections
         [OF demo_senders(3) n(2), where acc = accept_all and d = 9 and tid = 1
            and acc' = accept_all and v = 150]
  show ?thesis
    using demo_senders n
    by (simp add: Let_def p q s demo_pending_fields demo_settled_fields)
qed

section \<open>Recording environmental data\<close>

text \<open>
  Claim C7, as the specification states it: \<^verbatim>\<open>record\<close> returns the index of the new
  record, the value \<^verbatim>\<open>count(batchId)\<close> had before the call. The contract's
  \<^verbatim>\<open>recordEnvironmentData\<close> is declared without a return value: on the example
  ledger the count of batch 1 is 0, and the call returns, but it returns nothing.
\<close>

theorem C7_record_returns_no_index:
  "getEnvironmentDataCount demo_batch 1 = Inr 0 \<and>
   returned (exec accept_all (sent_by 1 1010)
               (RecordEnvironmentData 1 450 6500 ''Cold Storage'' ''Temperature check'') demo_batch)
     = Some None"
  by (simp add: getEnvironmentDataCount_def validBatch_view_def recordEnvironmentData_def
        modifier_defs sent_by_def demo_batch_fields) (simp add: demo_defs)

text \<open>
  Claim C7, amended. Under its preconditions (an active caller, an existing batch, a
  non-empty location) \<^verbatim>\<open>recordEnvironmentData\<close> appends one record, carrying the
  caller and the block time, to the log of the batch. The new record sits at the index
  that \<^verbatim>\<open>getEnvironmentDataCount\<close> answered immediately before the call, and the count
  is one more afterwards. The call itself returns no value. (The log is a storage array:
  its length fits 256 bits.)
\<close>

theorem C7_record_appends_at_count:
  assumes "isActive (participants st (msg_sender e))" and "0 < b" and "b < nextBatchId st"
    and "loc \<noteq> []" and "length (batchEnvironmentData st b) < 2 ^ 256"
  shows "let newRecord = \<lparr>timestamp_E = block_timestamp e, temperature = temp, humidity = hum,
                          location_E = loc, recorder = msg_sender e, notes_E = nts\<rparr>;
             n = (of_nat (length (batchEnvironmentData st b)) :: uint256);
             st' = transact acc e (RecordEnvironmentData b temp hum loc nts) st
         in exec acc e (RecordEnvironmentData b temp hum loc nts) st = Returned None st' \<and>
            batchEnvironmentData st' b = batchEnvironmentData st b @ [newRecord] \<and>
            getEnvironmentDataCount st b = Inr n \<and>
            getEnvironmentDataCount st' b = Inr (n + 1) \<and>
            getEnvironmentData st' b n = Inr (block_timestamp e, temp, hum, loc, msg_sender e, nts)"
proof -
  have u: "unat (of_nat (length (batchEnvironmentData st b)) :: uint256) =
             length (batchEnvironmentData st b)"
    using assms(5) by (simp add: unat_of_nat)
  show ?thesis
    using assms(1-4)
    by (simp add: Let_def transact_def recordEnvironmentData_def modifier_defs
          getEnvironmentDataCount_def getEnvironmentData_def validBatch_view_def u)
qed

text \<open>On the example ledger the first record of batch 1 is read back at index 0.\<close>

theorem C7_record_appends_witness:
  "isActive (participants demo_batch (msg_sender (sent_by 1 1010))) \<and> (0::uint256) < 1 \<and>
   1 < nextBatchId demo_batch \<and> ''Cold Storage'' \<noteq> [] \<and>
   length (batchEnvironmentData demo_batch 1) < 2 ^ 256 \<and>
   getEnvironmentDataCount demo_batch 1 = Inr 0 \<and>
   getEnvironmentData
     (transact accept_all (sent_by 1 1010)
        (RecordEnvironmentData 1 450 6500 ''Cold Storage'' ''Temperature check'') demo_batch) 1 0 =
     Inr (1010, 450, 6500, ''Cold Storage'', 1, ''Temperature check'')"
proof -
  have s: "msg_sender (sent_by 1 1010) = 1" "block_timestamp (sent_by 1 1010) = 1010"
    by (simp_all add: sent_by_def)
  have l: "batchEnvironmentData demo_batch 1 = []" by (simp add: demo_defs)
  have h: "isActive (participants demo_batch (msg_sender (sent_by 1 1010)))"
    "(0::uint256) < 1" "1 < nextBatchId demo_batch" "''Cold Storage'' \<noteq> []"
    "length (batchEnvironmentData demo_batch 1) < 2 ^ 256"
    by (simp_all add: s l demo_batch_fields)
  from C7_record_appends_at_count [OF h, where acc = accept_all and temp = 450 and hum = 6500
                 and nts = "''Temperature check''"]
  show ?thesis using h by (simp add: Let_def s l)
qed

section \<open>Stage progression\<close>

lemma exec_currentStage:
  assumes "exec acc e c st = Returned r st'"
  shows "(\<forall>b. currentStage (batches st' b) = currentStage (batches st b))
         \<or> (\<exists>pid qr loc. c = CreateBatch pid qr loc)
         \<or> (\<exists>b newOwner newStage newLocation. c = TransferBatchOwnership b newOwner newStage newLocation)"
  using assms
  by (cases c) (auto simp: Returned_simps dest: completeTransaction_fields(3))

lemma stage_transact:
  assumes "0 < b" and "b < nextBatchId st"
  shows "b < nextBatchId (transact acc e c st) \<and>
         uint8_of_Stage (currentStage (batches st b))
           \<le> uint8_of_Stage (currentStage (batches (transact acc e c st) b))"
proof (rule transact_cases [of acc e c st])
  assume "transact acc e c st = st"
  then show ?thesis using assms by simp
next
  fix r assume ex: "exec acc e c st = Returned r (transact acc e c st)"
  consider
      (CB) pid qr loc where "c = CreateBatch pid qr loc"
    | (TB) b' newOwner newStage newLocation where
        "c = TransferBatchOwnership b' newOwner newStage newLocation"
    | (other) "nextBatchId (transact acc e c st) = nextBatchId st"
        "\<forall>b. currentStage (batches (transact acc e c st) b) = currentStage (batches st b)"
    using exec_currentStage [OF ex] exec_nextBatchId [OF ex] by blast
  then show ?thesis
  proof cases
    case CB
    then show ?thesis
      using ex assms by (auto simp: Returned_simps word_less_succ_iff)
  next
    case TB
    then show ?thesis
      using ex assms by (auto simp: Returned_simps)
  next
    case other
    then show ?thesis using assms by simp
  qed
qed

lemma stage_run:
  assumes "0 < b" and "b < nextBatchId st"
  shows "b < nextBatchId (run acc cs st) \<and>
         uint8_of_Stage (currentStage (batches st b))
           \<le> uint8_of_Stage (currentStage (batches (run acc cs st) b))"
  using assms(2)
proof (induction cs arbitrary: st)
  case Nil
  then show ?case by simp
next
  case (Cons x cs)
  obtain e c where x: "x = (e, c)" by (cases x)
  from stage_transact [OF assms(1) Cons.prems, of acc e c]
  have 1: "b < nextBatchId (transact acc e c st)"
    and 2: "uint8_of_Stage (currentStage (batches st b))
             \<le> uint8_of_Stage (currentStage (batches (transact acc e c st) b))"
    by simp_all
  from Cons.IH [OF 1] 2 show ?case by (auto simp: x)
qed

text \<open>
  Claim C3. \<^verbatim>\<open>transferBatchOwnership\<close> returns only when the requested stage is
  strictly greater than the current stage of the batch, and then the batch is at the
  requested stage. A call whose stage is equal or lower is rejected and leaves the whole
  storage (so the stage, owner, location and histories of the batch) as it was; when it
  comes from the active owner of an existing batch and names an active new owner, the
  rejection is the stage check's own: \<open>StageMustChange\<close> for an equal stage,
  \<open>StageMustProgressForward\<close> for a lower one (the two messages of the kind
  NonMonotonicStage). Over any sequence of calls the stage of an existing batch never
  decreases, so a batch that has left a stage does not come back to it.
\<close>

theorem C3_monotonic_stage:
  "(failure (exec acc e (TransferBatchOwnership b newOwner newStage newLocation) st) = None \<longrightarrow>
      uint8_of_Stage (currentStage (batches st b)) < uint8_of_Stage newStage \<and>
      currentStage (batches (transact acc e
         (TransferBatchOwnership b newOwner newStage newLocation) st) b) = newStage) \<and>
   (\<not> uint8_of_Stage (currentStage (batches st b)) < uint8_of_Stage newStage \<longrightarrow>
      failure (exec acc e (TransferBatchOwnership b newOwner newStage newLocation) st) \<noteq> None \<and>
      transact acc e (TransferBatchOwnership b newOwner newStage newLocation) st = st) \<and>
   (\<not> uint8_of_Stage (currentStage (batches st b)) < uint8_of_Stage newStage \<and>
    0 < b \<and> b < nextBatchId st \<and> currentOwner (batches st b) = msg_sender e \<and>
    isActive (participants st (msg_sender e)) \<and> isActive (participants st newOwner) \<longrightarrow>
      failure (exec acc e (TransferBatchOwnership b newOwner newStage newLocation) st) =
        Some (if newStage = currentStage (batches st b) then StageMustChange
              else StageMustProgressForward)) \<and>
   (0 < b \<and> b < nextBatchId st \<longrightarrow>
      uint8_of_Stage (currentStage (batches st b))
        \<le> uint8_of_Stage (currentStage (batches (run acc cs st) b)))"
proof (intro conjI impI)
  assume "failure (exec acc e (TransferBatchOwnership b newOwner newStage newLocation) st) = None"
  then obtain r st' where
    ex: "exec acc e (TransferBatchOwnership b newOwner newStage newLocation) st = Returned r st'"
    by (auto simp: failure_None_iff)
  then have "transact acc e (TransferBatchOwnership b newOwner newStage newLocation) st = st'"
    by (rule transact_Returned)
  then show "uint8_of_Stage (currentStage (batches st b)) < uint8_of_Stage newStage"
    and "currentStage (batches (transact acc e
           (TransferBatchOwnership b newOwner newStage newLocation) st) b) = newStage"
    using ex by (auto simp: Returned_simps)
next
  assume n: "\<not> uint8_of_Stage (currentStage (batches st b)) < uint8_of_Stage newStage"
  then show f: "failure (exec acc e (TransferBatchOwnership b newOwner newStage newLocation) st) \<noteq> None"
    by (auto simp: failure_None_iff Returned_simps)
  then obtain err where
    "failure (exec acc e (TransferBatchOwnership b newOwner newStage newLocation) st) = Some err"
    by auto
  then show "transact acc e (TransferBatchOwnership b newOwner newStage newLocation) st = st"
    by (rule transact_failure)
next
  assume "\<not> uint8_of_Stage (currentStage (batches st b)) < uint8_of_Stage newStage \<and>
    0 < b \<and> b < nextBatchId st \<and> currentOwner (batches st b) = msg_sender e \<and>
    isActive (participants st (msg_sender e)) \<and> isActive (participants st newOwner)"
  then show "failure (exec acc e (TransferBatchOwnership b newOwner newStage newLocation) st) =
        Some (if newStage = currentStage (batches st b) then StageMustChange
              else StageMustProgressForward)"
    by (simp add: transferBatchOwnership_def modifier_defs)
next
  assume "0 < b \<and> b < nextBatchId st"
  then show "uint8_of_Stage (currentStage (batches st b))
        \<le> uint8_of_Stage (currentStage (batches (run acc cs st) b))"
    using stage_run [of b st acc cs] by simp
qed

text \<open>
  On the example ledger: the owner moves batch 1 from Harvested to Processed; the new
  owner's attempts to move it back to Harvested, or to keep it at Processed, are rejected
  and change nothing.
\<close>

theorem C3_monotonic_stage_witness:
  "failure (exec accept_all (sent_by 1 1010) (TransferBatchOwnership 1 2 Processed ''Plant'') demo_batch)
     = None \<and>
   uint8_of_Stage (currentStage (batches demo_batch 1)) < uint8_of_Stage Processed \<and>
   \<not> uint8_of_Stage (currentStage (batches demo_processed 1)) < uint8_of_Stage Harvested \<and>
   failure (exec accept_all (sent_by 2 1011) (TransferBatchOwnership 1 2 Harvested ''Plant'')
              demo_processed) = Some StageMustProgressForward \<and>
   failure (exec accept_all (sent_by 2 1011) (TransferBatchOwnership 1 2 Processed ''Plant'')
              demo_processed) = Some StageMustChange \<and>
   transact accept_all (sent_by 2 1011) (TransferBatchOwnership 1 2 Harvested ''Plant'')
     demo_processed = demo_processed \<and>
   (0::uint256) < 1 \<and> 1 < nextBatchId demo_batch \<and>
   uint8_of_Stage (currentStage (batches demo_batch 1))
     \<le> uint8_of_Stage (currentStage (batches
           (run accept_all [(sent_by 1 1010, TransferBatchOwnership 1 2 Processed ''Plant'')]
              demo_batch) 1))"
proof -
  have s: "msg_sender (sent_by 2 1011) = 2" "msg_sender (sent_by 1 1010) = 1"
    by (simp_all add: sent_by_def)
  have ok: "failure (exec accept_all (sent_by 1 1010)
              (TransferBatchOwnership 1 2 Processed ''Plant'') demo_batch) = None"
    by (simp add: transferBatchOwnership_def modifier_defs s demo_batch_fields demo_batch_batch
          Let_def)
  from C3_monotonic_stage [of accept_all "sent_by 1 1010" 1 2 Processed "''Plant''" demo_batch
         "[(sent_by 1 1010, TransferBatchOwnership 1 2 Processed ''Plant'')]"]
       C3_monotonic_stage [of accept_all "sent_by 2 1011" 1 2 Harvested "''Plant''" demo_processed "[]"]
       C3_monotonic_stage [of accept_all "sent_by 2 1011" 1 2 Processed "''Plant''" demo_processed "[]"]
  show ?thesis
    using ok by (simp add: s demo_batch_fields demo_batch_batch demo_processed_fields)
qed

section \<open>Rejected calls change nothing\<close>

lemma Reverted_same:
  "registerParticipant e nm loc ro st = Reverted err d \<Longrightarrow> d = st"
  "createProduct e pname var qty hdate organic certs st = Reverted err d \<Longrightarrow> d = st"
  "createBatch e pid qr loc st = Reverted err d \<Longrightarrow> d = st"
  "recordEnvironmentData e b temp hum loc nts st = Reverted err d \<Longrightarrow> d = st"
  "transferBatchOwnership e b newOwner newStage newLocation st = Reverted err d \<Longrightarrow> d = st"
  "updateQuality e b q reason st = Reverted err d \<Longrightarrow> d = st"
  "addBatchNote e b note st = Reverted err d \<Longrightarrow> d = st"
  "createTransaction e b buyer prc ttype st = Reverted err d \<Longrightarrow> d = st"
  "updateParticipantReputation e p v st = Reverted err d \<Longrightarrow> d = st"
  "deactivateParticipant e p st = Reverted err d \<Longrightarrow> d = st"
  "pause e st = Reverted err d \<Longrightarrow> d = st"
  "unpause e st = Reverted err d \<Longrightarrow> d = st"
  "transferOwnership e newOwner st = Reverted err d \<Longrightarrow> d = st"
  "renounceOwnership e st = Reverted err d \<Longrightarrow> d = st"
  by (auto simp: registerParticipant_def createProduct_def createBatch_def
        recordEnvironmentData_def transferBatchOwnership_def updateQuality_def addBatchNote_def
        createTransaction_def updateParticipantReputation_def deactivateParticipant_def
        pause_def unpause_def transferOwnership_def renounceOwnership_def modifier_defs Let_def
      split: if_splits)

lemma completeTransaction_Reverted:
  assumes "completeTransaction acc e tid v st = Reverted err d"
  shows "entities d = entities st \<or> err = TransferFailed"
  using assms
  by (auto simp: completeTransaction_def nonReentrant_def transfer_def entities_def Let_def
      split: if_splits outcome.splits)

text \<open>
  Claim C4. Every rejected call leaves the full storage, and so every entity table
  (participants, products, batches, code index, provenance logs, transactions), exactly
  as it was before the call: the platform discards what a reverting call has written.
  There is little to discard. In every function but \<^verbatim>\<open>completeTransaction\<close> each check
  comes before the first write, so the storage at the failing statement is still the
  storage before the call. In \<^verbatim>\<open>completeTransaction\<close> the entity tables are untouched
  at every failure except a failed payment (\<open>TransferFailed\<close>), which comes after the
  completed flag and the new owner are written and is rolled back with them.
\<close>

theorem C4_rejected_call_changes_nothing:
  assumes "failure (exec acc e c st) = Some err"
  shows "transact acc e c st = st \<and>
         (entities (storage_at_end (exec acc e c st)) = entities st \<or> err = TransferFailed) \<and>
         (storage_at_end (exec acc e c st) = st \<or> (\<exists>tid v. c = CompleteTransaction tid v))"
proof -
  from assms obtain d where ex: "exec acc e c st = Reverted err d"
    by (auto simp: failure_Some_iff)
  have 1: "transact acc e c st = st" by (rule transact_Reverted [OF ex])
  have 2: "d = st \<or> (\<exists>tid v. c = CompleteTransaction tid v)"
    using ex by (cases c) (auto simp: returns_nothing_Reverted returns_uint256_Reverted
                             dest: Reverted_same)
  have 3: "entities d = entities st \<or> err = TransferFailed"
  proof (cases "\<exists>tid v. c = CompleteTransaction tid v")
    case True
    then show ?thesis
      using ex by (auto simp: returns_nothing_Reverted dest: completeTransaction_Reverted)
  next
    case False
    then show ?thesis using 2 by auto
  qed
  show ?thesis using 1 2 3 by (simp add: ex)
qed

text \<open>
  On the example ledger: a transfer to a lower stage fails before any write; a
  settlement whose payment the seller refuses fails after the completed flag is written,
  and the flag is not set in the storage the call leaves.
\<close>

theorem C4_rejected_call_witness:
  "failure (exec accept_all (sent_by 2 1011) (TransferBatchOwnership 1 2 Harvested ''Plant'')
              demo_processed) = Some StageMustProgressForward \<and>
   storage_at_end (exec accept_all (sent_by 2 1011)
                     (TransferBatchOwnership 1 2 Harvested ''Plant'') demo_processed) = demo_processed \<and>
   failure (exec refuse_all (sent_by 2 1005) (CompleteTransaction 1 150) demo_pending)
     = Some TransferFailed \<and>
   completed (transactions (storage_at_end
      (exec refuse_all (sent_by 2 1005) (CompleteTransaction 1 150) demo_pending)) 1) \<and>
   \<not> completed (transactions demo_pending 1) \<and>
   transact refuse_all (sent_by 2 1005) (CompleteTransaction 1 150) demo_pending = demo_pending"
proof -
  have s: "msg_sender (sent_by 2 1011) = 2" "msg_sender (sent_by 2 1005) = 2"
    by (simp_all add: sent_by_def)
  have a: "failure (exec accept_all (sent_by 2 1011)
             (TransferBatchOwnership 1 2 Harvested ''Plant'') demo_processed)
           = Some StageMustProgressForward"
    by (simp add: transferBatchOwnership_def modifier_defs s demo_processed_fields)
  have b: "failure (exec refuse_all (sent_by 2 1005) (CompleteTransaction 1 150) demo_pending)
           = Some TransferFailed"
    by (simp add: completeTransaction_def nonReentrant_def transfer_def refuse_all_def Let_def s
          completeTransaction_effects_def demo_pending_fields)
  have c: "completed (transactions (storage_at_end
      (exec refuse_all (sent_by 2 1005) (CompleteTransaction 1 150) demo_pending)) 1)"
    by (simp add: completeTransaction_def nonReentrant_def transfer_def refuse_all_def Let_def s
          completeTransaction_effects_def demo_pending_fields)
  from C4_rejected_call_changes_nothing [OF a] C4_rejected_call_changes_nothing [OF b]
  show ?thesis using a b c by (simp add: demo_pending_fields)
qed

section \<open>The code index\<close>

lemma nextBatchId_transact: "nextBatchId st \<noteq> 0 \<Longrightarrow> nextBatchId (transact acc e c st) \<noteq> 0"
proof (rule transact_cases [of acc e c st])
  assume "nextBatchId st \<noteq> 0" "transact acc e c st = st"
  then show ?thesis by simp
next
  fix r assume nz: "nextBatchId st \<noteq> 0" and ex: "exec acc e c st = Returned r (transact acc e c st)"
  from exec_nextBatchId [OF ex] show ?thesis
  proof (elim disjE exE)
    assume "nextBatchId (transact acc e c st) = nextBatchId st"
    then show ?thesis using nz by simp
  next
    fix pid qr loc assume "c = CreateBatch pid qr loc"
    then show ?thesis using ex by (auto simp: Returned_simps word_succ_neq_0)
  qed
qed

lemma nextBatchId_run: "nextBatchId (run acc cs (constructor d)) \<noteq> 0"
  by (rule run_invariant [where P = "\<lambda>st. nextBatchId st \<noteq> 0"])
     (simp_all add: nextBatchId_transact constructor_def)

lemma qrCodeToBatch_transact:
  assumes "qrCodeToBatch st qr \<noteq> 0"
  shows "qrCodeToBatch (transact acc e c st) qr = qrCodeToBatch st qr"
proof (rule transact_cases [of acc e c st])
  assume "transact acc e c st = st"
  then show ?thesis by simp
next
  fix r assume ex: "exec acc e c st = Returned r (transact acc e c st)"
  from exec_qrCodeToBatch [OF ex] show ?thesis
  proof (elim disjE exE)
    assume "qrCodeToBatch (transact acc e c st) = qrCodeToBatch st"
    then show ?thesis by simp
  next
    fix pid q loc assume "c = CreateBatch pid q loc"
    then show ?thesis using ex assms by (auto simp: Returned_simps)
  qed
qed

lemma qrCodeToBatch_run:
  assumes "qrCodeToBatch st qr \<noteq> 0"
  shows "qrCodeToBatch (run acc cs st) qr = qrCodeToBatch st qr"
  using assms
proof (induction cs arbitrary: st)
  case Nil
  then show ?case by simp
next
  case (Cons x cs)
  obtain e c where x: "x = (e, c)" by (cases x)
  have 1: "qrCodeToBatch (transact acc e c st) qr = qrCodeToBatch st qr"
    by (rule qrCodeToBatch_transact [OF Cons.prems])
  then have "qrCodeToBatch (transact acc e c st) qr \<noteq> 0" using Cons.prems by simp
  from Cons.IH [OF this] 1 show ?case by (simp add: x)
qed

text \<open>
  Claim C5. A code is associated with at most one batch id, for good. When
  \<^verbatim>\<open>createBatch\<close> returns the id \<open>bid\<close> for the code \<open>qr\<close>, the code was unmapped
  before (\<^verbatim>\<open>getBatchByQR\<close> answered 0, which is no batch id), \<open>bid\<close> is not 0, and
  after any later sequence of calls \<^verbatim>\<open>getBatchByQR\<close> still answers \<open>bid\<close>. Every later
  \<^verbatim>\<open>createBatch\<close> with the same code is rejected and changes nothing; from a caller
  who passes the checks that come first (an active farmer who owns the product) the
  rejection is \<open>QRCodeExists\<close>, the contract's DuplicateCode.
\<close>

theorem C5_code_index_write_once:
  assumes "returned (exec acc e (CreateBatch pid qr loc) (run acc cs (constructor d))) = Some (Some bid)"
  shows "let st' = transact acc e (CreateBatch pid qr loc) (run acc cs (constructor d));
             later = run acc' cs' st';
             again = exec acc'' e' (CreateBatch pid' qr loc') later
         in bid \<noteq> 0 \<and>
            getBatchByQR (run acc cs (constructor d)) qr = 0 \<and>
            getBatchByQR later qr = bid \<and>
            failure again \<noteq> None \<and>
            transact acc'' e' (CreateBatch pid' qr loc') later = later \<and>
            (isActive (participants later (msg_sender e')) \<and>
             role (participants later (msg_sender e')) = Farmer \<and>
             farmer (products later pid') = msg_sender e'
               \<longrightarrow> failure again = Some QRCodeExists)"
proof -
  define st where "st = run acc cs (constructor d)"
  define st' where "st' = transact acc e (CreateBatch pid qr loc) st"
  define later where "later = run acc' cs' st'"
  from assms obtain s where ex: "exec acc e (CreateBatch pid qr loc) st = Returned (Some bid) s"
    unfolding st_def by (cases "exec acc e (CreateBatch pid qr loc) (run acc cs (constructor d))") auto
  then have s: "s = st'" unfolding st'_def by (simp add: transact_def)
  have cb: "createBatch e pid qr loc st = Returned bid st'"
    using ex s by (auto simp: returns_uint256_Returned)
  have nz: "nextBatchId st \<noteq> 0" unfolding st_def by (rule nextBatchId_run)
  have b: "bid = nextBatchId st" "qrCodeToBatch st qr = 0" "qrCodeToBatch st' qr = bid"
    using cb by (auto simp: createBatch_Returned)
  have bnz: "bid \<noteq> 0" using b(1) nz by simp
  have l: "qrCodeToBatch later qr = bid"
    unfolding later_def using qrCodeToBatch_run [of st' qr acc' cs'] b(3) bnz by simp
  have f: "failure (exec acc'' e' (CreateBatch pid' qr loc') later) \<noteq> None"
    using l bnz by (auto simp: failure_None_iff Returned_simps)
  then obtain err where "failure (exec acc'' e' (CreateBatch pid' qr loc') later) = Some err"
    by auto
  then have t: "transact acc'' e' (CreateBatch pid' qr loc') later = later"
    by (rule transact_failure)
  have q: "failure (exec acc'' e' (CreateBatch pid' qr loc') later) = Some QRCodeExists"
    if "isActive (participants later (msg_sender e'))"
      "role (participants later (msg_sender e')) = Farmer"
      "farmer (products later pid') = msg_sender e'"
    using that l bnz by (simp add: createBatch_def modifier_defs)
  show ?thesis
    unfolding Let_def st_def [symmetric] st'_def [symmetric] later_def [symmetric]
    using bnz b(2) l f t q by (simp add: getBatchByQR_def)
qed

text \<open>
  On the example ledger: batch 1 gets the code \<open>QR1\<close>; after the sale and the
  settlement the code still answers 1, and the farmer cannot use it for a second batch.
\<close>

lemma demo_unfold:
  "demo_batch = transact accept_all (sent_by 1 1003) (CreateBatch 1 ''QR1'' ''Warehouse'')
                  (run accept_all demo_product_calls (constructor 9))"
  "demo_settled = run accept_all
                    [(sent_by 1 1004, CreateTransaction 1 2 100 ''sale''),
                     (sent_by 2 1005, CompleteTransaction 1 150)] demo_batch"
  by (simp_all add: demo_batch_def demo_settled_def demo_settled_calls_def demo_pending_calls_def
        demo_calls_def run_append)

theorem C5_code_index_witness:
  "returned (exec accept_all (sent_by 1 1003) (CreateBatch 1 ''QR1'' ''Warehouse'')
               (run accept_all demo_product_calls (constructor 9))) = Some (Some 1) \<and>
   getBatchByQR (run accept_all demo_product_calls (constructor 9)) ''QR1'' = 0 \<and>
   getBatchByQR demo_settled ''QR1'' = 1 \<and>
   isActive (participants demo_settled (msg_sender (sent_by 1 2000))) \<and>
   role (participants demo_settled (msg_sender (sent_by 1 2000))) = Farmer \<and>
   farmer (products demo_settled 1) = msg_sender (sent_by 1 2000) \<and>
   failure (exec accept_all (sent_by 1 2000) (CreateBatch 1 ''QR1'' ''Barn'') demo_settled)
     = Some QRCodeExists \<and>
   transact accept_all (sent_by 1 2000) (CreateBatch 1 ''QR1'' ''Barn'') demo_settled = demo_settled"
proof -
  have s: "msg_sender (sent_by 1 2000) = 1" by (simp add: sent_by_def)
  have h: "returned (exec accept_all (sent_by 1 1003) (CreateBatch 1 ''QR1'' ''Warehouse'')
               (run accept_all demo_product_calls (constructor 9))) = Some (Some 1)"
    by (simp add: demo_defs)
  have p: "isActive (participants demo_settled 1)" "role (participants demo_settled 1) = Farmer"
    "farmer (products demo_settled 1) = 1"
    by (simp_all add: demo_defs)
  note inst = C5_code_index_write_once [OF h, where acc' = accept_all
                 and cs' = "[(sent_by 1 1004, CreateTransaction 1 2 100 ''sale''),
                            (sent_by 2 1005, CompleteTransaction 1 150)]"
                 and acc'' = accept_all and e' = "sent_by 1 2000" and pid' = 1 and loc' = "''Barn''"]
  have "getBatchByQR (run accept_all demo_product_calls (constructor 9)) ''QR1'' = 0 \<and>
        getBatchByQR demo_settled ''QR1'' = 1 \<and>
        transact accept_all (sent_by 1 2000) (CreateBatch 1 ''QR1'' ''Barn'') demo_settled
          = demo_settled \<and>
        (isActive (participants demo_settled (msg_sender (sent_by 1 2000))) \<and>
         role (participants demo_settled (msg_sender (sent_by 1 2000))) = Farmer \<and>
         farmer (products demo_settled 1) = msg_sender (sent_by 1 2000)
           \<longrightarrow> failure (exec accept_all (sent_by 1 2000) (CreateBatch 1 ''QR1'' ''Barn'')
                          demo_settled) = Some QRCodeExists)"
    using inst unfolding Let_def demo_unfold [symmetric] by blast
  then show ?thesis using h p by (simp add: s)
qed

section \<open>Settlement happens at most once\<close>

lemma settled_transact:
  assumes "\<not> entered st" and "tid < nextTransactionId st"
    and "completed (transactions st tid)" and "to_T (transactions st tid) = buyer"
  shows "\<not> entered (transact acc e c st) \<and> tid < nextTransactionId (transact acc e c st) \<and>
         completed (transactions (transact acc e c st) tid) \<and>
         to_T (transactions (transact acc e c st) tid) = buyer"
proof (rule transact_cases [of acc e c st])
  assume "transact acc e c st = st"
  then show ?thesis using assms by simp
next
  fix r assume ex: "exec acc e c st = Returned r (transact acc e c st)"
  have en: "\<not> entered (transact acc e c st)" by (rule exec_entered [OF ex assms(1)])
  consider
      (CR) b buyer' prc ttype where "c = CreateTransaction b buyer' prc ttype"
    | (CT) tid' v where "c = CompleteTransaction tid' v"
    | (other) "transactions (transact acc e c st) = transactions st"
        "nextTransactionId (transact acc e c st) = nextTransactionId st"
    using exec_transactions [OF ex] exec_nextTransactionId [OF ex] by blast
  then show ?thesis
  proof cases
    case CR
    then have f: "nextTransactionId st \<noteq> - 1"
      "nextTransactionId (transact acc e c st) = nextTransactionId st + 1"
      "\<And>t. t \<noteq> nextTransactionId st \<Longrightarrow>
         transactions (transact acc e c st) t = transactions st t"
      using ex by (auto simp: Returned_simps)
    have "tid \<noteq> nextTransactionId st" using assms(2) by auto
    then show ?thesis
      using en assms f(3) by (simp add: f(2) word_less_succ_iff [OF f(1)])
  next
    case CT
    then have ct: "completeTransaction acc e tid' v st = Returned () (transact acc e c st)"
      using ex by (simp add: returns_nothing_Returned)
    show ?thesis
      using en assms by (auto simp: completeTransaction_fields [OF ct])
  next
    case other
    then show ?thesis using en assms by simp
  qed
qed

lemma settled_run:
  assumes "\<not> entered st" and "tid < nextTransactionId st"
    and "completed (transactions st tid)" and "to_T (transactions st tid) = buyer"
  shows "\<not> entered (run acc cs st) \<and> tid < nextTransactionId (run acc cs st) \<and>
         completed (transactions (run acc cs st) tid) \<and>
         to_T (transactions (run acc cs st) tid) = buyer"
  by (rule run_invariant
        [where P = "\<lambda>s. \<not> entered s \<and> tid < nextTransactionId s \<and>
                        completed (transactions s tid) \<and> to_T (transactions s tid) = buyer"])
     (use assms settled_transact in auto)

lemma completeTransaction_settled_only:
  assumes "\<not> entered st" and "msg_sender e = to_T (transactions st tid)"
    and "\<not> completed (transactions st tid)" and "price (transactions st tid) \<le> v"
  shows "failure (completeTransaction
           (settled_only tid (batchId_T (transactions st tid)) (to_T (transactions st tid)))
           e tid v st) = None"
proof -
  have u: "unat (v - price (transactions st tid)) = unat v - unat (price (transactions st tid))"
    by (rule unat_sub [OF assms(4)])
  have le: "unat (price (transactions st tid)) \<le> unat v"
    using assms(4) by (simp add: word_le_nat_alt)
  have ar: "\<not> contractBalance st + unat v - unat (price (transactions st tid))
               < unat v - unat (price (transactions st tid))"
    "\<not> contractBalance st + unat v < unat (price (transactions st tid))"
    using le by arith+
  show ?thesis
    using assms ar
    by (simp add: completeTransaction_def nonReentrant_def transfer_def settled_only_def
          completeTransaction_effects_def Let_def u not_less)
qed

lemma completeTransaction_entered:
  "entered st \<Longrightarrow> completeTransaction acc e tid v st =
     Reverted ReentrantCall (st\<lparr>contractBalance := contractBalance st + unat v\<rparr>)"
  by (simp add: completeTransaction_def nonReentrant_def)

text \<open>
  Claim C1, as the specification states it: every later call of
  \<^verbatim>\<open>completeTransaction\<close> on the same id, a reentrant one included, is rejected with
  AlreadyCompleted. The function carries the \<^verbatim>\<open>nonReentrant\<close> guard, and the guard
  comes before the checks. On the example ledger the buyer, account 2, pays 150 for a
  price of 100 and is refunded 50 inside \<^verbatim>\<open>completeTransaction(1)\<close>; on receiving the
  refund it calls \<^verbatim>\<open>completeTransaction(1)\<close> again. The inner call fails with
  \<open>ReentrantCall\<close>: the recipient that expects this error accepts the refund and the
  settlement returns, while the recipient that expects \<open>AlreadyCompleted\<close> refuses it
  and the settlement reverts.
\<close>

theorem C1_reentrant_call_meets_guard:
  "failure (exec (reentrant_probe ReentrantCall) (sent_by 2 1005) (CompleteTransaction 1 150)
              demo_pending) = None \<and>
   failure (exec (reentrant_probe AlreadyCompleted) (sent_by 2 1005) (CompleteTransaction 1 150)
              demo_pending) = Some TransferFailed"
  by (simp add: completeTransaction_def nonReentrant_def transfer_def reentrant_probe_def
        completeTransaction_effects_def Let_def sent_by_def demo_pending_fields
        demo_pending_balance)

text \<open>
  Claim C1, amended. For a transaction that was created, \<^verbatim>\<open>completeTransaction\<close>
  writes at most once. When it returns, the completed flag is set and the batch belongs
  to the buyer, and both were written before any payment was made: a recipient that
  accepts a payment only on seeing the guard set, the flag set and the batch owned by the
  buyer lets the very same call return. Every subsequent call on the same id is rejected
  and changes nothing: a reentrant one (made while the guard is set) by the guard, with
  \<open>ReentrantCall\<close>; a later one, after any sequence of other calls, with
  \<open>AlreadyCompleted\<close> when it comes from the stored buyer and with \<open>NotTheBuyer\<close>
  from anyone else.
\<close>

theorem C1_settlement_at_most_once:
  assumes "failure (exec acc e (CompleteTransaction tid v) st) = None"
    and "tid < nextTransactionId st"
  shows "let txn = transactions st tid;
             st1 = transact acc e (CompleteTransaction tid v) st;
             later = run acc' cs st1;
             again = exec acc'' e' (CompleteTransaction tid v') later
         in completed (transactions st1 tid) \<and>
            currentOwner (batches st1 (batchId_T txn)) = to_T txn \<and>
            failure (exec (settled_only tid (batchId_T txn) (to_T txn)) e
                       (CompleteTransaction tid v) st) = None \<and>
            (entered s \<longrightarrow>
               failure (exec acc'' e' (CompleteTransaction tid v') s) = Some ReentrantCall \<and>
               transact acc'' e' (CompleteTransaction tid v') s = s) \<and>
            failure again = Some (if msg_sender e' = to_T txn then AlreadyCompleted else NotTheBuyer) \<and>
            transact acc'' e' (CompleteTransaction tid v') later = later"
proof -
  define txn where "txn = transactions st tid"
  define st1 where "st1 = transact acc e (CompleteTransaction tid v) st"
  define later where "later = run acc' cs st1"
  from assms(1) obtain r s1 where ex: "exec acc e (CompleteTransaction tid v) st = Returned r s1"
    by (auto simp: failure_None_iff)
  then have s1: "s1 = st1" unfolding st1_def by (simp add: transact_def)
  have ct: "completeTransaction acc e tid v st = Returned () st1"
    using ex s1 by (simp add: returns_nothing_Returned)
  note pre = completeTransaction_Returned [OF ct]
  note fld = completeTransaction_fields [OF ct]
  have a: "completed (transactions st1 tid)" "currentOwner (batches st1 (batchId_T txn)) = to_T txn"
    "to_T (transactions st1 tid) = to_T txn" "tid < nextTransactionId st1" "\<not> entered st1"
    using assms(2) by (simp_all add: fld txn_def)
  have b: "failure (exec (settled_only tid (batchId_T txn) (to_T txn)) e
                       (CompleteTransaction tid v) st) = None"
    unfolding txn_def using completeTransaction_settled_only [of st e tid v] pre by simp
  have c: "failure (exec acc'' e' (CompleteTransaction tid v') s) = Some ReentrantCall \<and>
           transact acc'' e' (CompleteTransaction tid v') s = s" if "entered s"
    using that by (simp add: completeTransaction_entered transact_def)
  from settled_run [OF a(5) a(4) a(1) a(3), of acc' cs]
  have l: "\<not> entered later" "completed (transactions later tid)"
    "to_T (transactions later tid) = to_T txn"
    unfolding later_def by simp_all
  have d: "failure (exec acc'' e' (CompleteTransaction tid v') later) =
             Some (if msg_sender e' = to_T txn then AlreadyCompleted else NotTheBuyer)"
    using completeTransaction_failure(1,2) [OF l(1), where e = e' and tid = tid and acc = acc''
                                               and v = v'] l(2,3)
    by auto
  then have t: "transact acc'' e' (CompleteTransaction tid v') later = later"
    by (rule transact_failure)
  show ?thesis
    unfolding Let_def txn_def [symmetric] st1_def [symmetric] later_def [symmetric]
    using a(1,2) b c d t by simp
qed

text \<open>
  On the example ledger: the buyer settles transaction 1; the storage in which a
  refusing seller was asked has the guard set, and a call made there meets the guard; the
  buyer's second call, after the settlement, is rejected with \<open>AlreadyCompleted\<close>.
\<close>

theorem C1_settlement_witness:
  "failure (exec accept_all (sent_by 2 1005) (CompleteTransaction 1 150) demo_pending) = None \<and>
   1 < nextTransactionId demo_pending \<and>
   completed (transactions demo_settled 1) \<and>
   currentOwner (batches demo_settled 1) = 2 \<and>
   failure (exec (settled_only 1 1 2) (sent_by 2 1005) (CompleteTransaction 1 150) demo_pending)
     = None \<and>
   entered (storage_at_end
     (exec refuse_all (sent_by 2 1005) (CompleteTransaction 1 150) demo_pending)) \<and>
   failure (exec accept_all (sent_by 2 1006) (CompleteTransaction 1 150)
     (storage_at_end (exec refuse_all (sent_by 2 1005) (CompleteTransaction 1 150) demo_pending)))
     = Some ReentrantCall \<and>
   failure (exec accept_all (sent_by 2 1006) (CompleteTransaction 1 150) demo_settled)
     = Some AlreadyCompleted \<and>
   transact accept_all (sent_by 2 1006) (CompleteTransaction 1 150) demo_settled = demo_settled"
proof -
  have s: "msg_sender (sent_by 2 1005) = 2" "msg_sender (sent_by 2 1006) = 2"
    by (simp_all add: sent_by_def)
  have h: "failure (exec accept_all (sent_by 2 1005) (CompleteTransaction 1 150) demo_pending) = None"
    by (simp add: completeTransaction_def nonReentrant_def transfer_def accept_all_def
          completeTransaction_effects_def Let_def s demo_pending_fields)
  have n: "1 < nextTransactionId demo_pending" by (simp add: demo_pending_fields)
  have en: "entered (storage_at_end
     (exec refuse_all (sent_by 2 1005) (CompleteTransaction 1 150) demo_pending))"
    by (simp add: completeTransaction_def nonReentrant_def transfer_def refuse_all_def
          completeTransaction_effects_def Let_def s demo_pending_fields)
  note inst = C1_settlement_at_most_once [OF h n, where acc' = accept_all and cs = "[]" and acc'' = accept_all
      and e' = "sent_by 2 1006" and v' = 150
      and s = "storage_at_end
        (exec refuse_all (sent_by 2 1005) (CompleteTransaction 1 150) demo_pending)"]
  show ?thesis
    using inst h n en
    by (simp add: Let_def demo_settled_unfold [symmetric] s demo_pending_fields)
qed

end
